theory Spec2Isabelle
  imports Complex_Main
begin

section \<open>OffiStation: cart, voucher and totals logic\<close>

text \<open>
  The storefront's script exists in two versions in the repository: the older
  \<^verbatim>\<open>script1.js\<close> (cart and checkout only) and the current core script (embedded after
  the OAuth guide), which adds vouchers, login gating and image normalisation. Functions
  of the current script keep their names; where \<^verbatim>\<open>script1.js\<close> differs, its function is
  modelled beside it under the same name with the suffix \<open>_s1\<close>.

  Modelling decisions.
  \<^item> JavaScript numbers are IEEE doubles. Prices and money amounts are modelled as exact
    rationals (\<^typ>\<open>rat\<close>) and quantities as unbounded integers (\<^typ>\<open>int\<close>);
    rounding, \<^verbatim>\<open>NaN\<close> and infinities are outside the model, except that the
    \<^verbatim>\<open>NaN\<close> returned by \<^verbatim>\<open>parseInt\<close> is the value \<open>None\<close>.
  \<^item> Strings are \<^typ>\<open>string\<close> (bytes). Case mapping and whitespace are those of
    JavaScript on ASCII text, which is what the voucher table's keys are.
  \<^item> A thrown exception is the left summand of a sum type.
  \<^item> \<^verbatim>\<open>localStorage\<close> is a record with one optional field per key that the
    modelled functions read or write. The storage itself is taken to be available (its
    accessors do not throw).
  \<^item> The page (DOM) is not part of the state. A handler takes what it reads from the
    page as arguments and returns the storage it leaves, with the text it shows where
    that matters.
\<close>

subsection \<open>Data model\<close>

text \<open>A cart line \<^verbatim>\<open>{ id, name, price, image, quantity }\<close>. The fields \<open>id\<close> and
  \<open>image\<close> carry a prime because HOL already has constants of these names.\<close>

record cart_item =
  id' :: string
  name :: string
  price :: rat
  image' :: string
  quantity :: int

type_synonym cart = "cart_item list"

text \<open>A voucher's \<^verbatim>\<open>type\<close> field selects which of \<^verbatim>\<open>amount\<close> and \<^verbatim>\<open>percent\<close> it
  carries: a tagged union. Both entries of the table are of one of the two types, so the
  last \<^verbatim>\<open>return 0\<close> of \<^verbatim>\<open>calculateVoucherDiscount\<close>, for any other type, has no
  counterpart in the model.\<close>

datatype voucher_rule = Amount rat | Percent rat

record voucher =
  code :: string
  rule :: voucher_rule
  minSpend :: rat
  description :: string

datatype exn = SyntaxError | URIError

definition SHIPPING_FEE :: rat where
  "SHIPPING_FEE = 150"

text \<open>The peso sign of the descriptions, as its three UTF-8 bytes.\<close>

definition peso :: string where
  "peso = [char_of (226::nat), char_of (130::nat), char_of (177::nat)]"

definition VOUCHERS :: "string \<rightharpoonup> voucher" where
  "VOUCHERS = map_of
     [(''OFFI2025'', \<lparr>code = ''OFFI2025'', rule = Amount 100, minSpend = 500,
          description = peso @ ''100 OFF min. spend '' @ peso @ ''500''\<rparr>),
      (''BULK10'', \<lparr>code = ''BULK10'', rule = Percent 10, minSpend = 2000,
          description = ''10% OFF orders above '' @ peso @ ''2,000''\<rparr>)]"

subsection \<open>String helpers of the host language\<close>

text \<open>\<^verbatim>\<open>String.prototype.toUpperCase\<close> on ASCII: the letters a to z move to A to Z.\<close>

definition toUpperChar :: "char \<Rightarrow> char" where
  "toUpperChar c =
     (if 97 \<le> (of_char c :: nat) \<and> (of_char c :: nat) \<le> 122
      then char_of ((of_char c :: nat) - 32) else c)"

definition toUpperCase :: "string \<Rightarrow> string" where
  "toUpperCase s = map toUpperChar s"

text \<open>\<^verbatim>\<open>String.prototype.trim\<close> on ASCII: tab, line feed, vertical tab, form feed,
  carriage return and space are removed from both ends.\<close>

definition isWhiteSpace :: "char \<Rightarrow> bool" where
  "isWhiteSpace c = ((9 \<le> (of_char c :: nat) \<and> (of_char c :: nat) \<le> 13) \<or> (of_char c :: nat) = 32)"

definition trim :: "string \<Rightarrow> string" where
  "trim s = rev (dropWhile isWhiteSpace (rev (dropWhile isWhiteSpace s)))"

subsection \<open>Persisted state\<close>

text \<open>
  The value stored under \<^verbatim>\<open>cartItems\<close> is text. The model keeps of a stored text what
  \<^verbatim>\<open>JSON.parse\<close> makes of it: the text written by \<^verbatim>\<open>JSON.stringify(cart)\<close> parses back
  to that cart (carts hold strings and finite numbers only), and a text that is not JSON,
  stored under the key by hand or by a damaged write, makes \<^verbatim>\<open>JSON.parse\<close> throw a
  \<^verbatim>\<open>SyntaxError\<close>. A text that is JSON but not a cart is outside the model.
\<close>

datatype stored_text = Stringified cart | NotJSON string

record storage =
  cartItems :: "stored_text option"
  os_active_voucher :: "string option"
  os_current_user :: "string option"
  os_saved_username :: "string option"

definition JSON_stringify :: "cart \<Rightarrow> stored_text" where
  "JSON_stringify c = Stringified c"

text \<open>\<^verbatim>\<open>JSON.parse(localStorage.getItem(k))\<close>: a missing key gives \<^verbatim>\<open>null\<close>, which
  \<^verbatim>\<open>JSON.parse\<close> turns into the text \<^verbatim>\<open>"null"\<close> and parses to \<^verbatim>\<open>null\<close> (here \<open>None\<close>).\<close>

fun JSON_parse :: "stored_text option \<Rightarrow> exn + cart option" where
  "JSON_parse None = Inr None"
| "JSON_parse (Some (Stringified c)) = Inr (Some c)"
| "JSON_parse (Some (NotJSON s)) = Inl SyntaxError"

subsection \<open>Voucher code management\<close>

text \<open>\<^verbatim>\<open>localStorage.getItem('os_active_voucher') || null\<close>: the empty string is falsy.\<close>

definition getActiveVoucherCode :: "storage \<Rightarrow> string option" where
  "getActiveVoucherCode st =
     (case os_active_voucher st of
        None \<Rightarrow> None
      | Some c \<Rightarrow> if c = [] then None else Some c)"

definition setActiveVoucherCode :: "string option \<Rightarrow> storage \<Rightarrow> storage" where
  "setActiveVoucherCode c st =
     (case c of
        None \<Rightarrow> st\<lparr>os_active_voucher := None\<rparr>
      | Some s \<Rightarrow> if s = [] then st\<lparr>os_active_voucher := None\<rparr>
                 else st\<lparr>os_active_voucher := Some s\<rparr>)"

definition clearActiveVoucher :: "storage \<Rightarrow> storage" where
  "clearActiveVoucher st = st\<lparr>os_active_voucher := None\<rparr>"

text \<open>\<^verbatim>\<open>getVoucherByCode(code)\<close>: \<^verbatim>\<open>null\<close> and the empty string are falsy. The lookup
  \<^verbatim>\<open>VOUCHERS[up]\<close> also sees the properties an object literal inherits; their names all
  contain lower-case letters, which an upper-cased key does not, so the table's own two
  keys are the only ones found.\<close>

definition getVoucherByCode :: "string option \<Rightarrow> voucher option" where
  "getVoucherByCode c =
     (case c of
        None \<Rightarrow> None
      | Some s \<Rightarrow> if s = [] then None else VOUCHERS (toUpperCase (trim s)))"

definition calculateVoucherDiscount :: "cart \<Rightarrow> string option \<Rightarrow> rat" where
  "calculateVoucherDiscount cart c =
     (case getVoucherByCode c of
        None \<Rightarrow> 0
      | Some v \<Rightarrow>
          let subtotal = foldl (\<lambda>s it. s + price it * of_int (quantity it)) 0 cart
          in if subtotal \<le> 0 then 0
             else if minSpend v \<noteq> 0 \<and> subtotal < minSpend v then 0
             else (case rule v of
                     Amount a \<Rightarrow> min a subtotal
                   | Percent p \<Rightarrow> subtotal * (p / 100)))"

subsection \<open>Cart persistence\<close>

text \<open>\<^verbatim>\<open>JSON.parse(localStorage.getItem('cartItems')) || []\<close>, the same in both versions.
  An array is truthy, so a stored cart is returned as it is; \<^verbatim>\<open>null\<close> gives the empty
  cart. Nothing catches what \<^verbatim>\<open>JSON.parse\<close> throws.\<close>

definition getCartItems :: "storage \<Rightarrow> exn + cart" where
  "getCartItems st =
     (case JSON_parse (cartItems st) of
        Inl e \<Rightarrow> Inl e
      | Inr None \<Rightarrow> Inr []
      | Inr (Some c) \<Rightarrow> Inr c)"

text \<open>The header badge shows the total quantity, or \<^verbatim>\<open>99+\<close> above 99. The badge is
  the only effect of \<^verbatim>\<open>updateCartCount\<close>; the model returns it.\<close>

datatype badge = Count int | NinetyNinePlus

definition updateCartCount :: "storage \<Rightarrow> exn + badge" where
  "updateCartCount st =
     (case getCartItems st of
        Inl e \<Rightarrow> Inl e
      | Inr items \<Rightarrow>
          let totalItems = foldl (\<lambda>sum item. sum + quantity item) 0 items
          in Inr (if totalItems > 99 then NinetyNinePlus else Count totalItems))"

definition saveCart :: "cart \<Rightarrow> storage \<Rightarrow> exn + storage" where
  "saveCart cart st =
     (let st' = st\<lparr>cartItems := Some (JSON_stringify cart)\<rparr>
      in case updateCartCount st' of Inl e \<Rightarrow> Inl e | Inr b \<Rightarrow> Inr st')"

text \<open>\<^verbatim>\<open>decodeURI\<close> and \<^verbatim>\<open>encodeURI\<close> are functions of the host; each may throw a
  \<^verbatim>\<open>URIError\<close>. They are parameters of the model.\<close>

record host =
  decodeURI :: "string \<Rightarrow> exn + string"
  encodeURI :: "string \<Rightarrow> exn + string"

definition normalizeImageUrl :: "host \<Rightarrow> string \<Rightarrow> string" where
  "normalizeImageUrl h url =
     (if url = [] then url
      else
        let fallback = (case encodeURI h url of Inr r \<Rightarrow> r | Inl err \<Rightarrow> url)
        in case decodeURI h url of
             Inl e \<Rightarrow> fallback
           | Inr decoded \<Rightarrow> (case encodeURI h decoded of Inl e \<Rightarrow> fallback | Inr r \<Rightarrow> r))"

text \<open>\<^verbatim>\<open>cart.find(i => i.id === newItem.id)\<close> yields the first entry with that id, and the
  assignment to its \<^verbatim>\<open>quantity\<close> changes that entry inside the array:
  \<^const>\<open>List.extract\<close> splits the cart at the first match.\<close>

definition addItemToCart :: "host \<Rightarrow> cart_item \<Rightarrow> storage \<Rightarrow> exn + storage" where
  "addItemToCart h newItem st =
     (case getCartItems st of
        Inl e \<Rightarrow> Inl e
      | Inr cart \<Rightarrow>
          (case List.extract (\<lambda>i. id' i = id' newItem) cart of
             Some (before, existing, after) \<Rightarrow>
               saveCart (before @ existing\<lparr>quantity := quantity existing + quantity newItem\<rparr> # after) st
           | None \<Rightarrow>
               let newItem' = (if image' newItem \<noteq> []
                               then newItem\<lparr>image' := normalizeImageUrl h (image' newItem)\<rparr>
                               else newItem)
               in saveCart (cart @ [newItem']) st))"

definition addItemToCart_s1 :: "cart_item \<Rightarrow> storage \<Rightarrow> exn + storage" where
  "addItemToCart_s1 newItem st =
     (case getCartItems st of
        Inl e \<Rightarrow> Inl e
      | Inr cart \<Rightarrow>
          (case List.extract (\<lambda>item. id' item = id' newItem) cart of
             Some (before, existingItem, after) \<Rightarrow>
               saveCart (before @ existingItem\<lparr>quantity := quantity existingItem + quantity newItem\<rparr> # after) st
           | None \<Rightarrow> saveCart (cart @ [newItem]) st))"

definition updateQuantity :: "string \<Rightarrow> int \<Rightarrow> storage \<Rightarrow> exn + storage" where
  "updateQuantity i q st =
     (case getCartItems st of
        Inl e \<Rightarrow> Inl e
      | Inr cart \<Rightarrow>
          (case List.extract (\<lambda>it. id' it = i) cart of
             Some (before, item, after) \<Rightarrow> saveCart (before @ item\<lparr>quantity := q\<rparr> # after) st
           | None \<Rightarrow> saveCart cart st))"

text \<open>In \<^verbatim>\<open>script1.js\<close> \<^verbatim>\<open>removeItem\<close> also re-renders the cart page; the storage it
  leaves is the same.\<close>

definition removeItem :: "string \<Rightarrow> storage \<Rightarrow> exn + storage" where
  "removeItem i st =
     (case getCartItems st of
        Inl e \<Rightarrow> Inl e
      | Inr cart \<Rightarrow> saveCart (filter (\<lambda>it. id' it \<noteq> i) cart) st)"

subsection \<open>Totals\<close>

record totals =
  subtotal :: rat
  discount :: rat
  shipping :: rat
  total :: rat
  itemCount :: int
  appliedVoucher :: "string option"

text \<open>The current \<^verbatim>\<open>calculateCartTotals(cart)\<close> reads the active voucher code from the
  storage, which is therefore an argument of the model.\<close>

definition calculateCartTotals :: "storage \<Rightarrow> cart \<Rightarrow> totals" where
  "calculateCartTotals st cart =
     (let subtotal = foldl (\<lambda>sum item. sum + price item * of_int (quantity item)) 0 cart;
          itemCount = foldl (\<lambda>sum item. sum + quantity item) 0 cart;
          appliedCode = getActiveVoucherCode st;
          discount = (case appliedCode of
                        None \<Rightarrow> 0
                      | Some c \<Rightarrow> calculateVoucherDiscount cart (Some c));
          shipping = (if subtotal > 0 then SHIPPING_FEE else 0);
          total = max 0 (subtotal - discount) + shipping
      in \<lparr>subtotal = subtotal, discount = discount, shipping = shipping, total = total,
          itemCount = itemCount, appliedVoucher = appliedCode\<rparr>)"

record totals_s1 =
  subtotal_s1 :: rat
  total_s1 :: rat
  itemCount_s1 :: int

definition calculateCartTotals_s1 :: "cart \<Rightarrow> totals_s1" where
  "calculateCartTotals_s1 cart =
     (let subtotal = foldl (\<lambda>sum item. sum + price item * of_int (quantity item)) 0 cart;
          total = (if subtotal > 0 then subtotal + SHIPPING_FEE else 0);
          itemCount = foldl (\<lambda>sum item. sum + quantity item) 0 cart
      in \<lparr>subtotal_s1 = subtotal, total_s1 = total, itemCount_s1 = itemCount\<rparr>)"

subsection \<open>Quantity controls\<close>

text \<open>
  \<^verbatim>\<open>parseInt(string, radix)\<close>: leading white space is skipped, a sign is read, with no
  radix (here radix 0) or radix 16 a prefix \<^verbatim>\<open>0x\<close> selects base 16, and the longest run of
  digits of the base is the value; no digit at all gives \<^verbatim>\<open>NaN\<close> (\<open>None\<close>).
\<close>

definition digitValue :: "char \<Rightarrow> nat" where
  "digitValue c =
     (let n = (of_char c :: nat)
      in if 48 \<le> n \<and> n \<le> 57 then n - 48
         else if 97 \<le> n \<and> n \<le> 122 then n - 87
         else if 65 \<le> n \<and> n \<le> 90 then n - 55
         else 36)"

definition parseInt :: "string \<Rightarrow> nat \<Rightarrow> int option" where
  "parseInt s radix =
     (let t = dropWhile isWhiteSpace s;
          neg = (t \<noteq> [] \<and> hd t = CHR ''-'');
          u = (if t \<noteq> [] \<and> (hd t = CHR ''-'' \<or> hd t = CHR ''+'') then tl t else t);
          hex = ((radix = 0 \<or> radix = 16) \<and> (take 2 u = ''0x'' \<or> take 2 u = ''0X''));
          r = (if radix = 0 then (if hex then 16 else 10) else radix);
          w = (if hex then drop 2 u else u);
          ds = takeWhile (\<lambda>c. digitValue c < r) w
      in if r < 2 \<or> 36 < r then None
         else if ds = [] then None
         else Some ((if neg then - 1 else 1) * int (foldl (\<lambda>a c. a * r + digitValue c) 0 ds)))"

text \<open>The \<^verbatim>\<open>change\<close> listener of a quantity input on the cart page of \<^verbatim>\<open>script1.js\<close>:
  \<^verbatim>\<open>newQty > 0\<close> is false for \<^verbatim>\<open>NaN\<close>.\<close>

definition quantity_input_change_s1 :: "string \<Rightarrow> string \<Rightarrow> storage \<Rightarrow> exn + storage" where
  "quantity_input_change_s1 i v st =
     (case parseInt v 0 of
        Some newQty \<Rightarrow> if newQty > 0 then updateQuantity i newQty st else removeItem i st
      | None \<Rightarrow> removeItem i st)"

text \<open>The delegated \<^verbatim>\<open>change\<close> listener of the cart list in the current script:
  \<^verbatim>\<open>parseInt(target.value, 10) || 1\<close> replaces \<^verbatim>\<open>NaN\<close> and 0, the falsy numbers, by 1.\<close>

definition cartList_change :: "string \<Rightarrow> string \<Rightarrow> storage \<Rightarrow> exn + storage" where
  "cartList_change i v st =
     (let qty = (case parseInt v 10 of None \<Rightarrow> 1 | Some n \<Rightarrow> if n = 0 then 1 else n)
      in updateQuantity i qty st)"

text \<open>The \<^verbatim>\<open>change\<close> listener of a quantity input of the checkout summary.\<close>

definition checkout_qty_input_change :: "string \<Rightarrow> string \<Rightarrow> storage \<Rightarrow> exn + storage" where
  "checkout_qty_input_change i v st =
     (let qty = (case parseInt v 10 of None \<Rightarrow> 1 | Some n \<Rightarrow> if n = 0 then 1 else n);
          qty = (if qty < 1 then 1 else qty)
      in updateQuantity i qty st)"

subsection \<open>Applying a voucher\<close>

text \<open>
  \<^verbatim>\<open>renderCart\<close> registers the body of the Apply handler twice. When the page has no
  element \<^verbatim>\<open>voucher-controls\<close> yet, it injects the controls and adds the body with
  \<^verbatim>\<open>addEventListener\<close>; on every render that gets that far it also assigns the body as
  the button's \<^verbatim>\<open>onclick\<close>. Each copy closes over the \<^verbatim>\<open>cart\<close> that its render read.
  Of the cart page the model keeps what these handlers depend on: whether the controls
  exist, the cart held by each copy (if the copy is registered), and the value of the
  code input, which a render also writes.
\<close>

record page =
  voucher_controls :: bool
  listener_cart :: "cart option"
  onclick_cart :: "cart option"
  code_input :: string

text \<open>\<^verbatim>\<open>renderCart\<close>, as far as the voucher controls go. It throws what
  \<^verbatim>\<open>getCartItems\<close> throws, and with an empty cart it returns before it reaches the
  controls.\<close>

definition renderCart :: "storage \<Rightarrow> page \<Rightarrow> exn + page" where
  "renderCart st pg =
     (case getCartItems st of
        Inl e \<Rightarrow> Inl e
      | Inr cart \<Rightarrow>
          if cart = [] then Inr pg
          else
            let totals = calculateCartTotals st cart;
                pg1 = pg\<lparr>listener_cart := (if voucher_controls pg then listener_cart pg
                                           else Some cart),
                         voucher_controls := True\<rparr>;
                pg2 = pg1\<lparr>onclick_cart := Some cart\<rparr>
            in Inr (case appliedVoucher totals of
                      Some applied \<Rightarrow>
                        (case getVoucherByCode (Some applied) of
                           Some v \<Rightarrow> pg2\<lparr>code_input := code v\<rparr>
                         | None \<Rightarrow> pg2)
                    | None \<Rightarrow> pg2\<lparr>code_input := []\<rparr>))"

text \<open>
  One copy of the Apply handler; \<open>cart\<close> is the cart it closes over. It reads the code
  input, and after storing the code it shows a toast and calls \<^verbatim>\<open>renderCart\<close>; an
  exception of that call ends the copy with the page as it was. The result is the
  storage, the page and the toast.
\<close>

definition apply_voucher_click :: "cart \<Rightarrow> storage \<Rightarrow> page \<Rightarrow> storage \<times> page \<times> string" where
  "apply_voucher_click cart st pg =
     (let c = toUpperCase (trim (code_input pg))
      in if c = [] then (st, pg, ''Enter a voucher code'')
         else if getVoucherByCode (Some c) = None then (st, pg, ''Invalid voucher code'')
         else
           let discount = calculateVoucherDiscount cart (Some c)
           in if discount \<le> 0 then (st, pg, ''Voucher does not meet requirements'')
              else
                let st' = setActiveVoucherCode (Some c) st;
                    pg' = (case renderCart st' pg of Inr p \<Rightarrow> p | Inl e \<Rightarrow> pg)
                in (st', pg', ''Voucher '' @ c @ '' applied''))"

text \<open>
  A click on Apply after the visitor has typed \<open>v\<close> into the code input. The listeners of
  the button run in the order of their registration: first the copy added with
  \<^verbatim>\<open>addEventListener\<close>, if there is one, then the handler that \<^verbatim>\<open>onclick\<close> holds when
  its turn comes. The result is the storage, the page and the toasts shown.
\<close>

definition apply_button_click :: "string \<Rightarrow> storage \<Rightarrow> page \<Rightarrow> storage \<times> page \<times> string list" where
  "apply_button_click v st pg =
     (let pg0 = pg\<lparr>code_input := v\<rparr>;
          (st1, pg1, t1) = (case listener_cart pg0 of
                              None \<Rightarrow> (st, pg0, [])
                            | Some cart \<Rightarrow>
                                (case apply_voucher_click cart st pg0 of
                                   (s, p, t) \<Rightarrow> (s, p, [t])));
          (st2, pg2, t2) = (case onclick_cart pg1 of
                              None \<Rightarrow> (st1, pg1, [])
                            | Some cart \<Rightarrow>
                                (case apply_voucher_click cart st1 pg1 of
                                   (s, p, t) \<Rightarrow> (s, p, [t])))
      in (st2, pg2, t1 @ t2))"

text \<open>The Remove button: \<^verbatim>\<open>clearActiveVoucher\<close> and a re-render.\<close>

definition remove_voucher_click :: "storage \<Rightarrow> storage \<times> string" where
  "remove_voucher_click st = (clearActiveVoucher st, ''Voucher removed'')"

subsection \<open>Login state, checkout and logout\<close>

definition isLoggedIn :: "storage \<Rightarrow> bool" where
  "isLoggedIn st = (case os_current_user st of None \<Rightarrow> False | Some u \<Rightarrow> u \<noteq> [])"

record form =
  fullName :: string
  email :: string
  phone :: string
  address :: string
  city :: string
  paymentMethod :: "string option"

definition validateCheckoutForm :: "form \<Rightarrow> bool" where
  "validateCheckoutForm f =
     (let isValid = list_all (\<lambda>v. trim v \<noteq> [])
                      [fullName f, email f, phone f, address f, city f];
          isValid = (if CHR ''@'' \<notin> set (email f) then False else isValid);
          isValid = (if paymentMethod f = None then False else isValid)
      in isValid)"

datatype outcome = AuthPromptShown | FormRejected | OrderPlaced

text \<open>The submit handler. The order is only logged; of the storage, the key
  \<^verbatim>\<open>cartItems\<close> is removed and nothing else is written.\<close>

definition handleCheckoutForm :: "form \<Rightarrow> storage \<Rightarrow> exn + storage \<times> outcome" where
  "handleCheckoutForm f st =
     (if \<not> isLoggedIn st then Inr (st, AuthPromptShown)
      else if \<not> validateCheckoutForm f then Inr (st, FormRejected)
      else
        case getCartItems st of
          Inl e \<Rightarrow> Inl e
        | Inr cart \<Rightarrow>
            let totals = calculateCartTotals st cart;
                st' = st\<lparr>cartItems := None\<rparr>
            in case updateCartCount st' of
                 Inl e \<Rightarrow> Inl e
               | Inr b \<Rightarrow> Inr (st', OrderPlaced))"

definition handleCheckoutForm_s1 :: "form \<Rightarrow> storage \<Rightarrow> exn + storage \<times> outcome" where
  "handleCheckoutForm_s1 f st =
     (if \<not> validateCheckoutForm f then Inr (st, FormRejected)
      else
        case getCartItems st of
          Inl e \<Rightarrow> Inl e
        | Inr cart \<Rightarrow>
            let totals = calculateCartTotals_s1 cart;
                st' = st\<lparr>cartItems := None\<rparr>
            in case updateCartCount st' of
                 Inl e \<Rightarrow> Inl e
               | Inr b \<Rightarrow> Inr (st', OrderPlaced))"

text \<open>\<^verbatim>\<open>doLogout\<close>: every step sits in a \<^verbatim>\<open>try\<close>; should \<^verbatim>\<open>saveCart([])\<close> throw, the
  cart key is removed instead.\<close>

definition doLogout :: "storage \<Rightarrow> storage" where
  "doLogout st =
     (let st1 = st\<lparr>os_current_user := None\<rparr>;
          st2 = st1\<lparr>os_saved_username := None\<rparr>;
          st3 = (case saveCart [] st2 of Inr s \<Rightarrow> s | Inl err \<Rightarrow> st2\<lparr>cartItems := None\<rparr>);
          st4 = st3\<lparr>os_active_voucher := None\<rparr>
      in st4)"

subsection \<open>Reachable storages of \<^verbatim>\<open>script1.js\<close>\<close>

text \<open>
  The storages the pages of \<^verbatim>\<open>script1.js\<close> reach from one with no cart: the catalog's
  Add button adds one unit of a product, the cart page changes a quantity or removes a
  line, and a checkout that goes through removes the cart.
\<close>

inductive reachable_s1 :: "storage \<Rightarrow> bool" where
  start: "cartItems st = None \<Longrightarrow> reachable_s1 st"
| add: "reachable_s1 st \<Longrightarrow>
        addItemToCart_s1 \<lparr>id' = i, name = n, price = p, image' = img, quantity = 1\<rparr> st = Inr st' \<Longrightarrow>
        reachable_s1 st'"
| change: "reachable_s1 st \<Longrightarrow> quantity_input_change_s1 i v st = Inr st' \<Longrightarrow> reachable_s1 st'"
| remove: "reachable_s1 st \<Longrightarrow> removeItem i st = Inr st' \<Longrightarrow> reachable_s1 st'"
| checkout: "reachable_s1 st \<Longrightarrow> handleCheckoutForm_s1 f st = Inr (st', r) \<Longrightarrow> reachable_s1 st'"

subsection \<open>The totals calculator in the specification's words\<close>

text \<open>
  The specification describes \<open>computeTotals(cart, activeCode)\<close> in six steps: the subtotal
  is the sum of price times quantity; a subtotal that is not positive gives no discount
  and no shipping; the voucher is resolved from the active code, and none, or a subtotal
  below its minimum spend, gives no discount; otherwise an amount voucher gives the
  smaller of its amount and the subtotal, and a percent voucher that percentage of the
  subtotal; shipping is the fixed fee; the total is
  \<open>max(0, subtotal - discount) + shipping\<close>. This definition follows those words, to be
  compared with \<^const>\<open>calculateCartTotals\<close>.
\<close>

definition computeTotals :: "cart \<Rightarrow> string option \<Rightarrow> totals" where
  "computeTotals cart activeCode =
     (let sub = (\<Sum>it\<leftarrow>cart. price it * of_int (quantity it));
          disc = (if sub \<le> 0 then 0
                  else case getVoucherByCode activeCode of
                         None \<Rightarrow> 0
                       | Some v \<Rightarrow>
                           if sub < minSpend v then 0
                           else (case rule v of
                                   Amount a \<Rightarrow> min a sub
                                 | Percent p \<Rightarrow> sub * p / 100));
          ship = (if sub > 0 then SHIPPING_FEE else 0)
      in \<lparr>subtotal = sub, discount = disc, shipping = ship,
          total = max 0 (sub - disc) + ship,
          itemCount = (\<Sum>it\<leftarrow>cart. quantity it), appliedVoucher = activeCode\<rparr>)"

subsection \<open>Example data\<close>

text \<open>A signed-in visitor with nothing stored yet, a product, a host whose URI
  functions leave a plain path as it is, a cart page before its first render (its markup
  has no voucher controls), and a filled-in checkout form.\<close>

definition signed_in :: storage where
  "signed_in = \<lparr>cartItems = None, os_active_voucher = None,
                 os_current_user = Some ''ana'', os_saved_username = None\<rparr>"

definition pen :: cart_item where
  "pen = \<lparr>id' = ''A'', name = ''Pen'', price = 100, image' = ''pen.png'', quantity = 1\<rparr>"

definition plain_host :: host where
  "plain_host = \<lparr>decodeURI = Inr, encodeURI = Inr\<rparr>"

definition fresh_page :: page where
  "fresh_page = \<lparr>voucher_controls = False, listener_cart = None, onclick_cart = None,
                  code_input = []\<rparr>"

definition order_form :: form where
  "order_form = \<lparr>fullName = ''Ana Cruz'', email = ''ana@example.com'', phone = ''0917 000 0000'',
                  address = ''1 Rizal St'', city = ''Manila'', paymentMethod = Some ''cod''\<rparr>"

section \<open>Properties\<close>

subsection \<open>Sums and the voucher table\<close>

lemma foldl_plus_sum_list:
  fixes f :: "'a \<Rightarrow> 'b::comm_monoid_add"
  shows "foldl (\<lambda>s x. s + f x) a xs = a + sum_list (map f xs)"
  by (induction xs arbitrary: a) (simp_all add: add.assoc)

lemma subtotal_fold:
  "foldl (\<lambda>s it. s + price it * of_int (quantity it)) 0 cart
     = (\<Sum>it\<leftarrow>cart. price it * of_int (quantity it))"
  by (simp add: foldl_plus_sum_list)

lemma itemCount_fold:
  "foldl (\<lambda>s it. s + quantity it) 0 cart = (\<Sum>it\<leftarrow>cart. quantity it)"
  by (simp add: foldl_plus_sum_list)

lemma VOUCHERS_Some:
  "VOUCHERS k = Some v \<Longrightarrow>
     (k = ''OFFI2025'' \<and> rule v = Amount 100 \<and> minSpend v = 500) \<or>
     (k = ''BULK10'' \<and> rule v = Percent 10 \<and> minSpend v = 2000)"
  by (auto simp: VOUCHERS_def split: if_splits)

lemma VOUCHERS_Nil: "VOUCHERS [] = None"
  by (simp add: VOUCHERS_def)

lemma VOUCHERS_None_iff: "(VOUCHERS k = None) = (k \<notin> {''OFFI2025'', ''BULK10''})"
  by (simp add: VOUCHERS_def)

lemma getVoucherByCode_minSpend: "getVoucherByCode c = Some v \<Longrightarrow> 0 < minSpend v"
  by (auto simp: getVoucherByCode_def split: option.splits if_splits dest!: VOUCHERS_Some)

lemma calculateVoucherDiscount_None: "calculateVoucherDiscount cart None = 0"
  by (simp add: calculateVoucherDiscount_def getVoucherByCode_def)

lemma discount_by_cases:
  "calculateVoucherDiscount cart c =
     (case getVoucherByCode c of
        None \<Rightarrow> 0
      | Some v \<Rightarrow>
          if (\<Sum>it\<leftarrow>cart. price it * of_int (quantity it)) < minSpend v then 0
          else (case rule v of
                  Amount a \<Rightarrow> min a (\<Sum>it\<leftarrow>cart. price it * of_int (quantity it))
                | Percent p \<Rightarrow> (\<Sum>it\<leftarrow>cart. price it * of_int (quantity it)) * p / 100))"
proof (cases "getVoucherByCode c")
  case None
  then show ?thesis by (simp add: calculateVoucherDiscount_def)
next
  case (Some v)
  then have "0 < minSpend v" by (rule getVoucherByCode_minSpend)
  with Some show ?thesis
    by (auto simp: calculateVoucherDiscount_def subtotal_fold Let_def split: voucher_rule.splits)
qed

lemma totals_refine:
  "calculateCartTotals st cart = computeTotals cart (getActiveVoucherCode st)"
proof -
  have d: "(case getActiveVoucherCode st of
              None \<Rightarrow> 0
            | Some c \<Rightarrow> calculateVoucherDiscount cart (Some c))
        = calculateVoucherDiscount cart (getActiveVoucherCode st)"
    by (simp add: calculateVoucherDiscount_None split: option.splits)
  show ?thesis
    unfolding calculateCartTotals_def computeTotals_def Let_def subtotal_fold itemCount_fold d
    using getVoucherByCode_minSpend[of "getActiveVoucherCode st"]
    by (auto simp: discount_by_cases split: option.splits voucher_rule.splits)
qed

lemma getVoucherByCode_BULK10:
  "getVoucherByCode (Some ''BULK10'') = VOUCHERS ''BULK10''"
  by (simp add: getVoucherByCode_def trim_def toUpperCase_def toUpperChar_def isWhiteSpace_def)

lemma getVoucherByCode_OFFI2025:
  "getVoucherByCode (Some ''OFFI2025'') = VOUCHERS ''OFFI2025''"
  by (simp add: getVoucherByCode_def trim_def toUpperCase_def toUpperChar_def isWhiteSpace_def)

subsection \<open>Totals\<close>

text \<open>
  Claim C1. For every cart and every stored active voucher code, the totals computation
  returns the subtotal as the sum of price times quantity over the items, the item count
  as the sum of the quantities, the shipping fee 150 when the subtotal is positive and 0
  otherwise, the discount as the voucher discount for the active code, and the total as
  \<open>max(0, subtotal - discount) + shipping\<close>. Its result is the specification's
  \<^const>\<open>computeTotals\<close> of the cart and the active code alone: it depends on nothing
  else in the storage, and it returns the totals only, so it writes nothing. The totals of
  \<^verbatim>\<open>script1.js\<close>, which knows no voucher, are those with discount 0.
\<close>

theorem calculateCartTotals_spec:
  "subtotal (calculateCartTotals st cart) = (\<Sum>it\<leftarrow>cart. price it * of_int (quantity it))
   \<and> itemCount (calculateCartTotals st cart) = (\<Sum>it\<leftarrow>cart. quantity it)
   \<and> shipping (calculateCartTotals st cart)
       = (if 0 < subtotal (calculateCartTotals st cart) then 150 else 0)
   \<and> discount (calculateCartTotals st cart)
       = calculateVoucherDiscount cart (getActiveVoucherCode st)
   \<and> total (calculateCartTotals st cart)
       = max 0 (subtotal (calculateCartTotals st cart) - discount (calculateCartTotals st cart))
         + shipping (calculateCartTotals st cart)
   \<and> calculateCartTotals st cart = computeTotals cart (getActiveVoucherCode st)
   \<and> subtotal_s1 (calculateCartTotals_s1 cart) = (\<Sum>it\<leftarrow>cart. price it * of_int (quantity it))
   \<and> itemCount_s1 (calculateCartTotals_s1 cart) = (\<Sum>it\<leftarrow>cart. quantity it)
   \<and> total_s1 (calculateCartTotals_s1 cart)
       = max 0 (subtotal_s1 (calculateCartTotals_s1 cart))
         + (if 0 < subtotal_s1 (calculateCartTotals_s1 cart) then 150 else 0)"
proof -
  have d: "(case getActiveVoucherCode st of
              None \<Rightarrow> 0
            | Some c \<Rightarrow> calculateVoucherDiscount cart (Some c))
        = calculateVoucherDiscount cart (getActiveVoucherCode st)"
    by (simp add: calculateVoucherDiscount_None split: option.splits)
  have new: "subtotal (calculateCartTotals st cart) = (\<Sum>it\<leftarrow>cart. price it * of_int (quantity it))"
    "itemCount (calculateCartTotals st cart) = (\<Sum>it\<leftarrow>cart. quantity it)"
    "shipping (calculateCartTotals st cart)
       = (if 0 < subtotal (calculateCartTotals st cart) then 150 else 0)"
    "discount (calculateCartTotals st cart)
       = calculateVoucherDiscount cart (getActiveVoucherCode st)"
    "total (calculateCartTotals st cart)
       = max 0 (subtotal (calculateCartTotals st cart) - discount (calculateCartTotals st cart))
         + shipping (calculateCartTotals st cart)"
    by (simp_all add: calculateCartTotals_def Let_def subtotal_fold itemCount_fold d SHIPPING_FEE_def)
  have old: "subtotal_s1 (calculateCartTotals_s1 cart) = (\<Sum>it\<leftarrow>cart. price it * of_int (quantity it))"
    "itemCount_s1 (calculateCartTotals_s1 cart) = (\<Sum>it\<leftarrow>cart. quantity it)"
    "total_s1 (calculateCartTotals_s1 cart)
       = max 0 (subtotal_s1 (calculateCartTotals_s1 cart))
         + (if 0 < subtotal_s1 (calculateCartTotals_s1 cart) then 150 else 0)"
    by (simp_all add: calculateCartTotals_s1_def Let_def subtotal_fold itemCount_fold SHIPPING_FEE_def)
  show ?thesis using new old totals_refine by blast
qed

theorem calculateCartTotals_spec_witness:
  "calculateCartTotals (signed_in\<lparr>os_active_voucher := Some ''BULK10''\<rparr>) [pen\<lparr>price := 1250, quantity := 2\<rparr>]
     = \<lparr>subtotal = 2500, discount = 250, shipping = 150, total = 2400, itemCount = 2,
        appliedVoucher = Some ''BULK10''\<rparr>
   \<and> total_s1 (calculateCartTotals_s1 [pen\<lparr>quantity := 2\<rparr>]) = 350"
proof -
  let ?st = "signed_in\<lparr>os_active_voucher := Some ''BULK10''\<rparr>"
  let ?cart = "[pen\<lparr>price := 1250, quantity := 2\<rparr>]"
  have a: "getActiveVoucherCode ?st = Some ''BULK10''"
    by (simp add: getActiveVoucherCode_def signed_in_def)
  have "calculateCartTotals ?st ?cart = computeTotals ?cart (getActiveVoucherCode ?st)"
    using calculateCartTotals_spec[of ?st ?cart] by blast
  then have 1: "calculateCartTotals ?st ?cart
      = \<lparr>subtotal = 2500, discount = 250, shipping = 150, total = 2400, itemCount = 2,
         appliedVoucher = Some ''BULK10''\<rparr>"
    unfolding a
    by (simp add: computeTotals_def getVoucherByCode_BULK10 VOUCHERS_def pen_def SHIPPING_FEE_def)
  have "subtotal_s1 (calculateCartTotals_s1 [pen\<lparr>quantity := 2\<rparr>]) = 200"
    using calculateCartTotals_spec[of signed_in "[pen\<lparr>quantity := 2\<rparr>]"] by (simp add: pen_def)
  moreover have "total_s1 (calculateCartTotals_s1 [pen\<lparr>quantity := 2\<rparr>])
       = max 0 (subtotal_s1 (calculateCartTotals_s1 [pen\<lparr>quantity := 2\<rparr>]))
         + (if 0 < subtotal_s1 (calculateCartTotals_s1 [pen\<lparr>quantity := 2\<rparr>]) then 150 else 0)"
    using calculateCartTotals_spec[of signed_in "[pen\<lparr>quantity := 2\<rparr>]"] by blast
  ultimately have 2: "total_s1 (calculateCartTotals_s1 [pen\<lparr>quantity := 2\<rparr>]) = 350" by simp
  show ?thesis using 1 2 by blast
qed

subsection \<open>Voucher discount\<close>

text \<open>
  Claim C3. For every cart and voucher code, the voucher discount is 0 when the code
  resolves to no voucher or the cart's subtotal is below the voucher's minimum spend;
  otherwise it is the smaller of the voucher's amount and the subtotal for an amount
  voucher, and the subtotal times percent over 100 for a percent voucher.
\<close>

theorem calculateVoucherDiscount_spec:
  "calculateVoucherDiscount cart c =
     (case getVoucherByCode c of
        None \<Rightarrow> 0
      | Some v \<Rightarrow>
          if (\<Sum>it\<leftarrow>cart. price it * of_int (quantity it)) < minSpend v then 0
          else (case rule v of
                  Amount a \<Rightarrow> min a (\<Sum>it\<leftarrow>cart. price it * of_int (quantity it))
                | Percent p \<Rightarrow> (\<Sum>it\<leftarrow>cart. price it * of_int (quantity it)) * p / 100))"
proof (cases "getVoucherByCode c")
  case None
  then show ?thesis by (simp add: calculateVoucherDiscount_def)
next
  case (Some v)
  then have "0 < minSpend v" by (rule getVoucherByCode_minSpend)
  with Some show ?thesis
    by (auto simp: calculateVoucherDiscount_def subtotal_fold Let_def split: voucher_rule.splits)
qed

theorem calculateVoucherDiscount_spec_witness:
  "calculateVoucherDiscount [pen\<lparr>quantity := 2\<rparr>] (Some ''OFFI2025'') = 0
   \<and> calculateVoucherDiscount [pen\<lparr>quantity := 6\<rparr>] (Some ''OFFI2025'') = 100
   \<and> calculateVoucherDiscount [pen\<lparr>quantity := 25\<rparr>] (Some ''BULK10'') = 250
   \<and> calculateVoucherDiscount [pen\<lparr>quantity := 25\<rparr>] (Some ''SAVE50'') = 0"
proof -
  have n: "getVoucherByCode (Some ''SAVE50'') = None"
    by (simp add: getVoucherByCode_def trim_def toUpperCase_def toUpperChar_def isWhiteSpace_def VOUCHERS_def)
  show ?thesis
    using calculateVoucherDiscount_spec[of "[pen\<lparr>quantity := 2\<rparr>]" "Some ''OFFI2025''"]
      calculateVoucherDiscount_spec[of "[pen\<lparr>quantity := 6\<rparr>]" "Some ''OFFI2025''"]
      calculateVoucherDiscount_spec[of "[pen\<lparr>quantity := 25\<rparr>]" "Some ''BULK10''"]
      calculateVoucherDiscount_spec[of "[pen\<lparr>quantity := 25\<rparr>]" "Some ''SAVE50''"]
    by (simp add: n getVoucherByCode_BULK10 getVoucherByCode_OFFI2025 VOUCHERS_def pen_def)
qed

subsection \<open>Voucher resolution\<close>

lemma of_char_toUpperChar:
  "(of_char (toUpperChar c) :: nat) =
     (if 97 \<le> (of_char c :: nat) \<and> (of_char c :: nat) \<le> 122 then of_char c - 32 else of_char c)"
  by (auto simp: toUpperChar_def)

lemma toUpperChar_idem: "toUpperChar (toUpperChar c) = toUpperChar c"
  unfolding toUpperChar_def[of "toUpperChar c"] of_char_toUpperChar
  by (auto simp: toUpperChar_def)

lemma isWhiteSpace_toUpperChar: "isWhiteSpace (toUpperChar c) = isWhiteSpace c"
  unfolding isWhiteSpace_def of_char_toUpperChar by auto

lemma toUpperCase_idem: "toUpperCase (toUpperCase s) = toUpperCase s"
  by (simp add: toUpperCase_def toUpperChar_idem)

lemma dropWhile_toUpperCase:
  "dropWhile isWhiteSpace (toUpperCase s) = toUpperCase (dropWhile isWhiteSpace s)"
  by (simp add: toUpperCase_def dropWhile_map comp_def isWhiteSpace_toUpperChar)

text \<open>Trimming and upper-casing commute: no letter becomes white space or the reverse.\<close>

lemma trim_toUpperCase: "trim (toUpperCase s) = toUpperCase (trim s)"
proof -
  have "trim (toUpperCase s)
      = rev (dropWhile isWhiteSpace (rev (toUpperCase (dropWhile isWhiteSpace s))))"
    by (simp add: trim_def dropWhile_toUpperCase)
  also have "rev (toUpperCase (dropWhile isWhiteSpace s))
      = toUpperCase (rev (dropWhile isWhiteSpace s))"
    by (simp add: toUpperCase_def rev_map)
  also have "dropWhile isWhiteSpace (toUpperCase (rev (dropWhile isWhiteSpace s)))
      = toUpperCase (dropWhile isWhiteSpace (rev (dropWhile isWhiteSpace s)))"
    by (rule dropWhile_toUpperCase)
  also have "rev (toUpperCase (dropWhile isWhiteSpace (rev (dropWhile isWhiteSpace s))))
      = toUpperCase (trim s)"
    by (simp add: toUpperCase_def rev_map trim_def)
  finally show ?thesis .
qed

lemma dropWhile_id_hd: "xs = [] \<or> \<not> P (hd xs) \<Longrightarrow> dropWhile P xs = xs"
  by (cases xs) auto

lemma dropWhile_hd: "dropWhile P xs = [] \<or> \<not> P (hd (dropWhile P xs))"
  using hd_dropWhile[of P xs] by blast

lemma hd_trim_back:
  assumes "ys = [] \<or> \<not> P (hd ys)"
  shows "rev (dropWhile P (rev ys)) = [] \<or> \<not> P (hd (rev (dropWhile P (rev ys))))"
proof (cases "rev (dropWhile P (rev ys)) = []")
  case True
  then show ?thesis by simp
next
  case False
  have "ys = rev (dropWhile P (rev ys)) @ rev (takeWhile P (rev ys))"
    by (metis rev_append rev_rev_ident takeWhile_dropWhile_id)
  with False have "hd ys = hd (rev (dropWhile P (rev ys)))"
    by (metis hd_append2)
  moreover from False have "ys \<noteq> []" by auto
  ultimately show ?thesis using assms by auto
qed

lemma trim_idem: "trim (trim s) = trim s"
proof -
  let ?P = isWhiteSpace
  let ?ys = "dropWhile ?P s"
  let ?t = "rev (dropWhile ?P (rev ?ys))"
  have t: "trim s = ?t" by (simp add: trim_def)
  have "?t = [] \<or> \<not> ?P (hd ?t)" by (rule hd_trim_back) (rule dropWhile_hd)
  then have 1: "dropWhile ?P ?t = ?t" by (rule dropWhile_id_hd)
  have 2: "dropWhile ?P (rev ?t) = rev ?t"
    by (simp add: dropWhile_id_hd[OF dropWhile_hd])
  show ?thesis unfolding t unfolding trim_def[of ?t] 1 2 by simp
qed

lemma normalise_idem:
  "toUpperCase (trim (trim (toUpperCase s))) = toUpperCase (trim s)"
  by (simp add: trim_toUpperCase trim_idem toUpperCase_idem)

text \<open>
  Claim C8. For every string code, voucher resolution trims and upper-cases the code
  before the lookup, so resolving a code and resolving its trimmed upper-case form give
  the same result, and a code resolves to none exactly when that form is not one of the
  two keys of the fixed table, \<^verbatim>\<open>OFFI2025\<close> and \<^verbatim>\<open>BULK10\<close>.
\<close>

theorem getVoucherByCode_normalises:
  "getVoucherByCode (Some c) = getVoucherByCode (Some (trim (toUpperCase c)))
   \<and> getVoucherByCode (Some c) = VOUCHERS (toUpperCase (trim c))
   \<and> (getVoucherByCode (Some c) = None) = (toUpperCase (trim c) \<notin> {''OFFI2025'', ''BULK10''})
   \<and> dom VOUCHERS = {''OFFI2025'', ''BULK10''}"
proof -
  have a: "getVoucherByCode (Some c) = VOUCHERS (toUpperCase (trim c))"
    by (simp add: getVoucherByCode_def VOUCHERS_Nil trim_def toUpperCase_def)
  have b: "getVoucherByCode (Some (trim (toUpperCase c))) = VOUCHERS (toUpperCase (trim c))"
  proof (cases "trim (toUpperCase c) = []")
    case True
    then have "toUpperCase (trim c) = []" by (simp add: trim_toUpperCase)
    with True show ?thesis by (simp add: getVoucherByCode_def VOUCHERS_Nil)
  next
    case False
    then show ?thesis by (simp add: getVoucherByCode_def normalise_idem)
  qed
  have c: "dom VOUCHERS = {''OFFI2025'', ''BULK10''}"
    by (auto simp: VOUCHERS_def dom_def)
  show ?thesis using a b c by (simp add: VOUCHERS_None_iff)
qed

theorem getVoucherByCode_normalises_witness:
  "getVoucherByCode (Some ''  bulk10 '') = getVoucherByCode (Some ''BULK10'')
   \<and> getVoucherByCode (Some ''  bulk10 '') \<noteq> None
   \<and> getVoucherByCode (Some ''SAVE50'') = None"
proof -
  have 1: "trim (toUpperCase ''  bulk10 '') = ''BULK10''" by code_simp
  have 2: "toUpperCase (trim ''  bulk10 '') = ''BULK10''" by code_simp
  have 3: "toUpperCase (trim ''SAVE50'') = ''SAVE50''" by code_simp
  note a = getVoucherByCode_normalises[of "''  bulk10 ''", unfolded 1 2]
  note b = getVoucherByCode_normalises[of "''SAVE50''", unfolded 3]
  from a have "getVoucherByCode (Some ''  bulk10 '') = getVoucherByCode (Some ''BULK10'')"
    by blast
  moreover from a have "(getVoucherByCode (Some ''  bulk10 '') = None)
      = (''BULK10'' \<notin> {''OFFI2025'', ''BULK10''})"
    by (rule conjunct2[THEN conjunct2, THEN conjunct1])
  then have "getVoucherByCode (Some ''  bulk10 '') \<noteq> None" by simp
  moreover from b have "getVoucherByCode (Some ''SAVE50'') = None" by blast
  ultimately show ?thesis by blast
qed

subsection \<open>Reading and writing the cart\<close>

lemma getCartItems_absent: "cartItems st = None \<Longrightarrow> getCartItems st = Inr []"
  by (simp add: getCartItems_def)

lemma getCartItems_stored:
  "cartItems st = Some (JSON_stringify c) \<Longrightarrow> getCartItems st = Inr c"
  by (simp add: getCartItems_def JSON_stringify_def)

lemma getCartItems_not_json:
  "cartItems st = Some (NotJSON s) \<Longrightarrow> getCartItems st = Inl SyntaxError"
  by (simp add: getCartItems_def)

text \<open>\<^verbatim>\<open>saveCart\<close> never throws: the badge is computed from the text just written.\<close>

lemma saveCart_eq: "saveCart cart st = Inr (st\<lparr>cartItems := Some (JSON_stringify cart)\<rparr>)"
  by (simp add: saveCart_def updateCartCount_def getCartItems_def JSON_stringify_def Let_def)

lemma getCartItems_saved:
  "getCartItems (st\<lparr>cartItems := Some (JSON_stringify cart)\<rparr>) = Inr cart"
  by (simp add: getCartItems_stored)

text \<open>
  Claim C2. \<^verbatim>\<open>getCartItems\<close> returns the persisted cart, and the empty sequence when no
  value is stored (the two lemmas above). The claim also asks for the empty sequence,
  without a crash, when the stored text is malformed JSON. There the code throws: with
  the text \<^verbatim>\<open>[{id:\<close> under the key, \<^verbatim>\<open>getCartItems\<close> ends in the \<^verbatim>\<open>SyntaxError\<close> of
  \<^verbatim>\<open>JSON.parse\<close>, and so does \<^verbatim>\<open>updateCartCount\<close>, the first call of every page load.
\<close>

theorem getCartItems_malformed:
  "getCartItems (signed_in\<lparr>cartItems := Some (NotJSON ''[{id:'')\<rparr>) = Inl SyntaxError
   \<and> updateCartCount (signed_in\<lparr>cartItems := Some (NotJSON ''[{id:'')\<rparr>) = Inl SyntaxError"
  by (simp add: getCartItems_def updateCartCount_def)

subsection \<open>Adding to the cart\<close>

lemma extract_first:
  "\<forall>b\<in>set bs. \<not> P b \<Longrightarrow> P x \<Longrightarrow> List.extract P (bs @ x # as) = Some (bs, x, as)"
  by (simp add: extract_Some_iff)

lemma extract_absent: "\<forall>b\<in>set xs. \<not> P b \<Longrightarrow> List.extract P xs = None"
  by (simp add: extract_None_iff)

lemma addItemToCart_present:
  assumes "getCartItems st = Inr (bs @ x # as)" "\<forall>b\<in>set bs. id' b \<noteq> id' newItem" "id' x = id' newItem"
  shows "addItemToCart h newItem st
     = Inr (st\<lparr>cartItems := Some (JSON_stringify (bs @ x\<lparr>quantity := quantity x + quantity newItem\<rparr> # as))\<rparr>)"
  using assms by (simp add: addItemToCart_def extract_first saveCart_eq)

lemma addItemToCart_new:
  assumes "getCartItems st = Inr cart" "\<forall>b\<in>set cart. id' b \<noteq> id' newItem"
  shows "addItemToCart h newItem st
     = Inr (st\<lparr>cartItems := Some (JSON_stringify (cart @
          [if image' newItem \<noteq> [] then newItem\<lparr>image' := normalizeImageUrl h (image' newItem)\<rparr> else newItem]))\<rparr>)"
  using assms by (simp add: addItemToCart_def extract_absent saveCart_eq Let_def)

lemma addItemToCart_s1_present:
  assumes "getCartItems st = Inr (bs @ x # as)" "\<forall>b\<in>set bs. id' b \<noteq> id' newItem" "id' x = id' newItem"
  shows "addItemToCart_s1 newItem st
     = Inr (st\<lparr>cartItems := Some (JSON_stringify (bs @ x\<lparr>quantity := quantity x + quantity newItem\<rparr> # as))\<rparr>)"
  using assms by (simp add: addItemToCart_s1_def extract_first saveCart_eq)

lemma addItemToCart_s1_new:
  assumes "getCartItems st = Inr cart" "\<forall>b\<in>set cart. id' b \<noteq> id' newItem"
  shows "addItemToCart_s1 newItem st = Inr (st\<lparr>cartItems := Some (JSON_stringify (cart @ [newItem]))\<rparr>)"
  using assms by (simp add: addItemToCart_s1_def extract_absent saveCart_eq)

lemma addItemToCart_throws:
  "getCartItems st = Inl e \<Longrightarrow> addItemToCart h newItem st = Inl e"
  "getCartItems st = Inl e \<Longrightarrow> addItemToCart_s1 newItem st = Inl e"
  by (simp_all add: addItemToCart_def addItemToCart_s1_def)

lemma first_match:
  "\<exists>x\<in>set xs. P x \<Longrightarrow> \<exists>bs x as. xs = bs @ x # as \<and> P x \<and> (\<forall>b\<in>set bs. \<not> P b)"
  by (metis split_list_first_prop)

lemma update_swap:
  "(a::cart_item)\<lparr>quantity := q, image' := i\<rparr> = a\<lparr>image' := i, quantity := q\<rparr>"
  by (cases a) simp

lemma add_twice:
  assumes ab: "id' b = id' a"
  shows "(case addItemToCart h a st of Inl e \<Rightarrow> Inl e | Inr st' \<Rightarrow> addItemToCart h b st')
       = addItemToCart h (a\<lparr>quantity := quantity a + quantity b\<rparr>) st"
proof (cases "getCartItems st")
  case (Inl e)
  then show ?thesis by (simp add: addItemToCart_throws)
next
  case (Inr cart)
  show ?thesis
  proof (cases "\<exists>x\<in>set cart. id' x = id' a")
    case True
    then obtain bs x as where c: "cart = bs @ x # as" "id' x = id' a" "\<forall>b\<in>set bs. id' b \<noteq> id' a"
      using first_match[of cart "\<lambda>x. id' x = id' a"] by blast
    have 1: "addItemToCart h a st
        = Inr (st\<lparr>cartItems := Some (JSON_stringify (bs @ x\<lparr>quantity := quantity x + quantity a\<rparr> # as))\<rparr>)"
      using Inr c by (simp add: addItemToCart_present)
    have 2: "addItemToCart h b (st\<lparr>cartItems := Some (JSON_stringify (bs @ x\<lparr>quantity := quantity x + quantity a\<rparr> # as))\<rparr>)
        = Inr (st\<lparr>cartItems := Some (JSON_stringify (bs @ x\<lparr>quantity := quantity x + quantity a + quantity b\<rparr> # as))\<rparr>)"
      using c ab
      by (simp add: addItemToCart_present[where bs=bs and x="x\<lparr>quantity := quantity x + quantity a\<rparr>" and as=as] getCartItems_saved)
    have 3: "addItemToCart h (a\<lparr>quantity := quantity a + quantity b\<rparr>) st
        = Inr (st\<lparr>cartItems := Some (JSON_stringify (bs @ x\<lparr>quantity := quantity x + (quantity a + quantity b)\<rparr> # as))\<rparr>)"
      using Inr c by (simp add: addItemToCart_present)
    show ?thesis by (simp add: 1 2 3 add.assoc)
  next
    case False
    then have n: "\<forall>x\<in>set cart. id' x \<noteq> id' a" by blast
    let ?a' = "if image' a \<noteq> [] then a\<lparr>image' := normalizeImageUrl h (image' a)\<rparr> else a"
    have 1: "addItemToCart h a st = Inr (st\<lparr>cartItems := Some (JSON_stringify (cart @ [?a']))\<rparr>)"
      using Inr n by (simp add: addItemToCart_new)
    have 2: "addItemToCart h b (st\<lparr>cartItems := Some (JSON_stringify (cart @ [?a']))\<rparr>)
        = Inr (st\<lparr>cartItems := Some (JSON_stringify (cart @ [?a'\<lparr>quantity := quantity a + quantity b\<rparr>]))\<rparr>)"
      using n ab
      by (simp add: addItemToCart_present[where bs=cart and x="?a'" and as="[]"] getCartItems_saved)
    have 3: "addItemToCart h (a\<lparr>quantity := quantity a + quantity b\<rparr>) st
        = Inr (st\<lparr>cartItems := Some (JSON_stringify (cart @ [?a'\<lparr>quantity := quantity a + quantity b\<rparr>]))\<rparr>)"
      using Inr n by (simp add: addItemToCart_new update_swap)
    show ?thesis by (simp add: 1 2 3)
  qed
qed

lemma add_twice_s1:
  assumes ab: "id' b = id' a"
  shows "(case addItemToCart_s1 a st of Inl e \<Rightarrow> Inl e | Inr st' \<Rightarrow> addItemToCart_s1 b st')
       = addItemToCart_s1 (a\<lparr>quantity := quantity a + quantity b\<rparr>) st"
proof (cases "getCartItems st")
  case (Inl e)
  then show ?thesis by (simp add: addItemToCart_throws)
next
  case (Inr cart)
  show ?thesis
  proof (cases "\<exists>x\<in>set cart. id' x = id' a")
    case True
    then obtain bs x as where c: "cart = bs @ x # as" "id' x = id' a" "\<forall>b\<in>set bs. id' b \<noteq> id' a"
      using first_match[of cart "\<lambda>x. id' x = id' a"] by blast
    have 1: "addItemToCart_s1 a st
        = Inr (st\<lparr>cartItems := Some (JSON_stringify (bs @ x\<lparr>quantity := quantity x + quantity a\<rparr> # as))\<rparr>)"
      using Inr c by (simp add: addItemToCart_s1_present)
    have 2: "addItemToCart_s1 b (st\<lparr>cartItems := Some (JSON_stringify (bs @ x\<lparr>quantity := quantity x + quantity a\<rparr> # as))\<rparr>)
        = Inr (st\<lparr>cartItems := Some (JSON_stringify (bs @ x\<lparr>quantity := quantity x + quantity a + quantity b\<rparr> # as))\<rparr>)"
      using c ab
      by (simp add: addItemToCart_s1_present[where bs=bs and x="x\<lparr>quantity := quantity x + quantity a\<rparr>" and as=as] getCartItems_saved)
    have 3: "addItemToCart_s1 (a\<lparr>quantity := quantity a + quantity b\<rparr>) st
        = Inr (st\<lparr>cartItems := Some (JSON_stringify (bs @ x\<lparr>quantity := quantity x + (quantity a + quantity b)\<rparr> # as))\<rparr>)"
      using Inr c by (simp add: addItemToCart_s1_present)
    show ?thesis by (simp add: 1 2 3 add.assoc)
  next
    case False
    then have n: "\<forall>x\<in>set cart. id' x \<noteq> id' a" by blast
    have 1: "addItemToCart_s1 a st = Inr (st\<lparr>cartItems := Some (JSON_stringify (cart @ [a]))\<rparr>)"
      using Inr n by (simp add: addItemToCart_s1_new)
    have 2: "addItemToCart_s1 b (st\<lparr>cartItems := Some (JSON_stringify (cart @ [a]))\<rparr>)
        = Inr (st\<lparr>cartItems := Some (JSON_stringify (cart @ [a\<lparr>quantity := quantity a + quantity b\<rparr>]))\<rparr>)"
      using n ab
      by (simp add: addItemToCart_s1_present[where bs=cart and x="a" and as="[]"] getCartItems_saved)
    have 3: "addItemToCart_s1 (a\<lparr>quantity := quantity a + quantity b\<rparr>) st
        = Inr (st\<lparr>cartItems := Some (JSON_stringify (cart @ [a\<lparr>quantity := quantity a + quantity b\<rparr>]))\<rparr>)"
      using Inr n by (simp add: addItemToCart_s1_new)
    show ?thesis by (simp add: 1 2 3)
  qed
qed

lemma normalize_plain: "normalizeImageUrl plain_host u = u"
  by (simp add: normalizeImageUrl_def plain_host_def)

text \<open>
  Claim C7. For every cart and item, adding the same id twice yields the same cart as
  adding it once with the summed quantity (also when the stored cart cannot be read: both
  sides throw). An add whose id is already present increments the quantity of the first
  entry with that id by the new item's quantity; an add with a new id appends the item
  (the current script first normalises a non-empty image URL of the item).
\<close>

theorem addItemToCart_twice:
  "(id' b = id' a \<longrightarrow>
      (case addItemToCart h a st of Inl e \<Rightarrow> Inl e | Inr st' \<Rightarrow> addItemToCart h b st')
        = addItemToCart h (a\<lparr>quantity := quantity a + quantity b\<rparr>) st
      \<and> (case addItemToCart_s1 a st of Inl e \<Rightarrow> Inl e | Inr st' \<Rightarrow> addItemToCart_s1 b st')
        = addItemToCart_s1 (a\<lparr>quantity := quantity a + quantity b\<rparr>) st)
   \<and> (getCartItems st = Inr (bs @ x # as) \<and> (\<forall>y\<in>set bs. id' y \<noteq> id' newItem) \<and> id' x = id' newItem \<longrightarrow>
      addItemToCart h newItem st
        = Inr (st\<lparr>cartItems := Some (JSON_stringify
                 (bs @ x\<lparr>quantity := quantity x + quantity newItem\<rparr> # as))\<rparr>)
      \<and> addItemToCart_s1 newItem st
        = Inr (st\<lparr>cartItems := Some (JSON_stringify
                 (bs @ x\<lparr>quantity := quantity x + quantity newItem\<rparr> # as))\<rparr>))
   \<and> (getCartItems st = Inr cart \<and> (\<forall>y\<in>set cart. id' y \<noteq> id' newItem) \<longrightarrow>
      addItemToCart h newItem st
        = Inr (st\<lparr>cartItems := Some (JSON_stringify
                 (cart @ [if image' newItem \<noteq> []
                          then newItem\<lparr>image' := normalizeImageUrl h (image' newItem)\<rparr>
                          else newItem]))\<rparr>)
      \<and> addItemToCart_s1 newItem st
        = Inr (st\<lparr>cartItems := Some (JSON_stringify (cart @ [newItem]))\<rparr>))"
proof (intro conjI impI)
  assume "id' b = id' a"
  then show "(case addItemToCart h a st of Inl e \<Rightarrow> Inl e | Inr st' \<Rightarrow> addItemToCart h b st')
        = addItemToCart h (a\<lparr>quantity := quantity a + quantity b\<rparr>) st"
    by (rule add_twice)
next
  assume "id' b = id' a"
  then show "(case addItemToCart_s1 a st of Inl e \<Rightarrow> Inl e | Inr st' \<Rightarrow> addItemToCart_s1 b st')
        = addItemToCart_s1 (a\<lparr>quantity := quantity a + quantity b\<rparr>) st"
    by (rule add_twice_s1)
next
  assume "getCartItems st = Inr (bs @ x # as) \<and> (\<forall>y\<in>set bs. id' y \<noteq> id' newItem) \<and> id' x = id' newItem"
  then show "addItemToCart h newItem st
        = Inr (st\<lparr>cartItems := Some (JSON_stringify
                 (bs @ x\<lparr>quantity := quantity x + quantity newItem\<rparr> # as))\<rparr>)"
    by (simp add: addItemToCart_present)
next
  assume "getCartItems st = Inr (bs @ x # as) \<and> (\<forall>y\<in>set bs. id' y \<noteq> id' newItem) \<and> id' x = id' newItem"
  then show "addItemToCart_s1 newItem st
        = Inr (st\<lparr>cartItems := Some (JSON_stringify
                 (bs @ x\<lparr>quantity := quantity x + quantity newItem\<rparr> # as))\<rparr>)"
    by (simp add: addItemToCart_s1_present)
next
  assume "getCartItems st = Inr cart \<and> (\<forall>y\<in>set cart. id' y \<noteq> id' newItem)"
  then show "addItemToCart h newItem st
        = Inr (st\<lparr>cartItems := Some (JSON_stringify
                 (cart @ [if image' newItem \<noteq> []
                          then newItem\<lparr>image' := normalizeImageUrl h (image' newItem)\<rparr>
                          else newItem]))\<rparr>)"
    by (simp add: addItemToCart_new)
next
  assume "getCartItems st = Inr cart \<and> (\<forall>y\<in>set cart. id' y \<noteq> id' newItem)"
  then show "addItemToCart_s1 newItem st
        = Inr (st\<lparr>cartItems := Some (JSON_stringify (cart @ [newItem]))\<rparr>)"
    by (simp add: addItemToCart_s1_new)
qed

theorem addItemToCart_twice_witness:
  "(case addItemToCart plain_host pen signed_in of
      Inl e \<Rightarrow> Inl e
    | Inr st' \<Rightarrow> addItemToCart plain_host (pen\<lparr>name := ''Pencil'', quantity := 2\<rparr>) st')
     = Inr (signed_in\<lparr>cartItems := Some (JSON_stringify [pen\<lparr>quantity := 3\<rparr>])\<rparr>)
   \<and> addItemToCart plain_host pen signed_in
     = Inr (signed_in\<lparr>cartItems := Some (JSON_stringify [pen])\<rparr>)
   \<and> addItemToCart plain_host (pen\<lparr>quantity := 2\<rparr>)
        (signed_in\<lparr>cartItems := Some (JSON_stringify [pen])\<rparr>)
     = Inr (signed_in\<lparr>cartItems := Some (JSON_stringify [pen\<lparr>quantity := 3\<rparr>])\<rparr>)"
proof -
  have g0: "getCartItems signed_in = Inr []"
    by (simp add: getCartItems_absent signed_in_def)
  have new: "addItemToCart plain_host pen signed_in
      = Inr (signed_in\<lparr>cartItems := Some (JSON_stringify [pen])\<rparr>)"
    using addItemToCart_twice[of pen pen plain_host signed_in "[]" pen "[]" pen "[]"] g0
    by (simp add: normalize_plain pen_def)
  have new3: "addItemToCart plain_host (pen\<lparr>quantity := 3\<rparr>) signed_in
      = Inr (signed_in\<lparr>cartItems := Some (JSON_stringify [pen\<lparr>quantity := 3\<rparr>])\<rparr>)"
    using addItemToCart_twice[of pen pen plain_host signed_in "[]" pen "[]" "pen\<lparr>quantity := 3\<rparr>" "[]"] g0
    by (simp add: normalize_plain pen_def)
  have twice: "(case addItemToCart plain_host pen signed_in of
      Inl e \<Rightarrow> Inl e
    | Inr st' \<Rightarrow> addItemToCart plain_host (pen\<lparr>name := ''Pencil'', quantity := 2\<rparr>) st')
     = addItemToCart plain_host (pen\<lparr>quantity := quantity pen + quantity (pen\<lparr>name := ''Pencil'', quantity := 2\<rparr>)\<rparr>) signed_in"
    using addItemToCart_twice[of "pen\<lparr>name := ''Pencil'', quantity := 2\<rparr>" pen plain_host signed_in "[]" pen "[]" pen "[]"]
    by simp
  have present: "addItemToCart plain_host (pen\<lparr>quantity := 2\<rparr>)
        (signed_in\<lparr>cartItems := Some (JSON_stringify [pen])\<rparr>)
     = Inr (signed_in\<lparr>cartItems := Some (JSON_stringify [pen\<lparr>quantity := 3\<rparr>])\<rparr>)"
    using addItemToCart_twice[of pen pen plain_host "signed_in\<lparr>cartItems := Some (JSON_stringify [pen])\<rparr>"
        "[]" pen "[]" "pen\<lparr>quantity := 2\<rparr>" "[]"]
    by (simp add: getCartItems_saved pen_def)
  have q: "pen\<lparr>quantity := quantity pen + quantity (pen\<lparr>name := ''Pencil'', quantity := 2\<rparr>)\<rparr> = pen\<lparr>quantity := 3\<rparr>"
    by (simp add: pen_def)
  show ?thesis using new new3 twice present unfolding q by simp
qed

text \<open>
  Claim C10. When \<^verbatim>\<open>addItemToCart\<close> is called with an id already present in the cart, only
  the quantity of the first entry with that id changes: the cart keeps its ids, names,
  prices and images entry by entry, nothing else in the storage changes, and the result is
  the same whatever name, price and image the new item carries.
\<close>

theorem addItemToCart_keeps_fields:
  assumes "getCartItems st = Inr cart" and "\<exists>x\<in>set cart. id' x = id' newItem"
  shows "\<exists>bs x as cart'.
           cart = bs @ x # as \<and> id' x = id' newItem \<and> (\<forall>y\<in>set bs. id' y \<noteq> id' newItem)
         \<and> cart' = bs @ x\<lparr>quantity := quantity x + quantity newItem\<rparr> # as
         \<and> addItemToCart h newItem st = Inr (st\<lparr>cartItems := Some (JSON_stringify cart')\<rparr>)
         \<and> addItemToCart_s1 newItem st = Inr (st\<lparr>cartItems := Some (JSON_stringify cart')\<rparr>)
         \<and> addItemToCart h (newItem\<lparr>name := n, price := p, image' := i\<rparr>) st
             = addItemToCart h newItem st
         \<and> addItemToCart_s1 (newItem\<lparr>name := n, price := p, image' := i\<rparr>) st
             = addItemToCart_s1 newItem st
         \<and> map id' cart' = map id' cart \<and> map name cart' = map name cart
         \<and> map price cart' = map price cart \<and> map image' cart' = map image' cart"
proof -
  from assms(2) obtain bs x as where
    c: "cart = bs @ x # as" "id' x = id' newItem" "\<forall>y\<in>set bs. id' y \<noteq> id' newItem"
    using first_match[of cart "\<lambda>x. id' x = id' newItem"] by blast
  let ?cart' = "bs @ x\<lparr>quantity := quantity x + quantity newItem\<rparr> # as"
  let ?other = "newItem\<lparr>name := n, price := p, image' := i\<rparr>"
  have g: "getCartItems st = Inr (bs @ x # as)" using assms(1) c(1) by simp
  have 1: "addItemToCart h newItem st = Inr (st\<lparr>cartItems := Some (JSON_stringify ?cart')\<rparr>)"
    using g c by (simp add: addItemToCart_present)
  have 2: "addItemToCart_s1 newItem st = Inr (st\<lparr>cartItems := Some (JSON_stringify ?cart')\<rparr>)"
    using g c by (simp add: addItemToCart_s1_present)
  have 3: "addItemToCart h ?other st = Inr (st\<lparr>cartItems := Some (JSON_stringify ?cart')\<rparr>)"
    using g c addItemToCart_present[of st bs x as ?other h] by simp
  have 4: "addItemToCart_s1 ?other st = Inr (st\<lparr>cartItems := Some (JSON_stringify ?cart')\<rparr>)"
    using g c addItemToCart_s1_present[of st bs x as ?other] by simp
  have 5: "map id' ?cart' = map id' cart" "map name ?cart' = map name cart"
    "map price ?cart' = map price cart" "map image' ?cart' = map image' cart"
    using c(1) by simp_all
  show ?thesis
    apply (rule exI[of _ bs], rule exI[of _ x], rule exI[of _ as], rule exI[of _ ?cart'])
    using c 1 2 3 4 5 by simp
qed

theorem addItemToCart_keeps_fields_witness:
  "addItemToCart plain_host \<lparr>id' = ''A'', name = ''Pencil'', price = 5, image' = ''other.png'', quantity = 2\<rparr>
      (signed_in\<lparr>cartItems := Some (JSON_stringify [pen])\<rparr>)
   = Inr (signed_in\<lparr>cartItems := Some (JSON_stringify
        [\<lparr>id' = ''A'', name = ''Pen'', price = 100, image' = ''pen.png'', quantity = 3\<rparr>])\<rparr>)"
proof -
  let ?st = "signed_in\<lparr>cartItems := Some (JSON_stringify [pen])\<rparr>"
  let ?new = "\<lparr>id' = ''A'', name = ''Pencil'', price = 5, image' = ''other.png'', quantity = 2\<rparr>"
  have g: "getCartItems ?st = Inr [pen]" by (rule getCartItems_saved)
  have e: "\<exists>x\<in>set [pen]. id' x = id' ?new" by (simp add: pen_def)
  from addItemToCart_keeps_fields[OF g e, of plain_host "''Pen''" 100 "''pen.png''"]
  obtain bs x as cart' where
    c: "[pen] = bs @ x # as" "cart' = bs @ x\<lparr>quantity := quantity x + quantity ?new\<rparr> # as"
      "addItemToCart plain_host ?new ?st = Inr (?st\<lparr>cartItems := Some (JSON_stringify cart')\<rparr>)"
    by (elim exE conjE)
  from c(1) have "bs = [] \<and> x = pen \<and> as = []"
    by (cases bs) simp_all
  with c(2) have "cart' = [\<lparr>id' = ''A'', name = ''Pen'', price = 100, image' = ''pen.png'', quantity = 3\<rparr>]"
    by (simp add: pen_def)
  with c(3) show ?thesis by simp
qed

subsection \<open>Checkout, logout and the stored voucher code\<close>

lemma cart_ops_keep_voucher:
  "addItemToCart h it st = Inr st' \<Longrightarrow> os_active_voucher st' = os_active_voucher st"
  "addItemToCart_s1 it st = Inr st' \<Longrightarrow> os_active_voucher st' = os_active_voucher st"
  "updateQuantity i q st = Inr st' \<Longrightarrow> os_active_voucher st' = os_active_voucher st"
  "removeItem i st = Inr st' \<Longrightarrow> os_active_voucher st' = os_active_voucher st"
  by (auto simp: addItemToCart_def addItemToCart_s1_def updateQuantity_def removeItem_def
      saveCart_eq Let_def split: sum.splits option.splits)

lemma handleCheckoutForm_cases:
  "handleCheckoutForm f st =
     (if \<not> isLoggedIn st then Inr (st, AuthPromptShown)
      else if \<not> validateCheckoutForm f then Inr (st, FormRejected)
      else case getCartItems st of
             Inl e \<Rightarrow> Inl e
           | Inr cart \<Rightarrow> Inr (st\<lparr>cartItems := None\<rparr>, OrderPlaced))"
  by (simp add: handleCheckoutForm_def updateCartCount_def getCartItems_absent Let_def
      split: sum.splits)

lemma doLogout_eq:
  "doLogout st = st\<lparr>os_current_user := None, os_saved_username := None,
                    cartItems := Some (JSON_stringify []), os_active_voucher := None\<rparr>"
  by (simp add: doLogout_def saveCart_eq)

lemma order_form_valid: "validateCheckoutForm order_form"
  by (simp add: validateCheckoutForm_def order_form_def trim_def isWhiteSpace_def)

text \<open>
  Claim C9. Order placement leaves the stored active voucher code unchanged: whatever
  the submit handler returns, the keys other than \<^verbatim>\<open>cartItems\<close> keep their values; a
  submission by a signed-in visitor with a valid form removes the cart key and nothing
  else, and a refused one changes nothing. The code therefore stays active for the next
  cart (adding items does not touch it) until the visitor removes the voucher or logs
  out, both of which clear it.
\<close>

theorem checkout_keeps_voucher:
  "(handleCheckoutForm f st = Inr (st', r) \<longrightarrow>
       os_active_voucher st' = os_active_voucher st
     \<and> getActiveVoucherCode st' = getActiveVoucherCode st
     \<and> os_current_user st' = os_current_user st
     \<and> os_saved_username st' = os_saved_username st
     \<and> (if r = OrderPlaced then st' = st\<lparr>cartItems := None\<rparr> \<and> getCartItems st' = Inr []
         else st' = st)
     \<and> (\<forall>h it st''. addItemToCart h it st' = Inr st'' \<longrightarrow>
            getActiveVoucherCode st'' = getActiveVoucherCode st))
   \<and> (isLoggedIn st \<and> validateCheckoutForm f \<and> getCartItems st = Inr cart \<longrightarrow>
       handleCheckoutForm f st = Inr (st\<lparr>cartItems := None\<rparr>, OrderPlaced))
   \<and> getActiveVoucherCode (clearActiveVoucher st) = None
   \<and> getActiveVoucherCode (fst (remove_voucher_click st)) = None
   \<and> getActiveVoucherCode (doLogout st) = None"
proof (intro conjI impI)
  assume a: "handleCheckoutForm f st = Inr (st', r)"
  then have s: "st' = st \<and> r \<noteq> OrderPlaced \<or> st' = st\<lparr>cartItems := None\<rparr> \<and> r = OrderPlaced"
    by (auto simp: handleCheckoutForm_cases split: if_splits sum.splits)
  then show "os_active_voucher st' = os_active_voucher st" by auto
  then show "getActiveVoucherCode st' = getActiveVoucherCode st"
    by (simp add: getActiveVoucherCode_def)
  from s show "os_current_user st' = os_current_user st" by auto
  from s show "os_saved_username st' = os_saved_username st" by auto
  from s show "if r = OrderPlaced then st' = st\<lparr>cartItems := None\<rparr> \<and> getCartItems st' = Inr []
         else st' = st"
    by (auto simp: getCartItems_absent)
  from s have v: "os_active_voucher st' = os_active_voucher st" by auto
  show "\<forall>h it st''. addItemToCart h it st' = Inr st'' \<longrightarrow>
            getActiveVoucherCode st'' = getActiveVoucherCode st"
    using cart_ops_keep_voucher(1) v by (auto simp: getActiveVoucherCode_def)
next
  assume "isLoggedIn st \<and> validateCheckoutForm f \<and> getCartItems st = Inr cart"
  then show "handleCheckoutForm f st = Inr (st\<lparr>cartItems := None\<rparr>, OrderPlaced)"
    by (simp add: handleCheckoutForm_cases)
next
  show "getActiveVoucherCode (clearActiveVoucher st) = None"
    by (simp add: getActiveVoucherCode_def clearActiveVoucher_def)
  show "getActiveVoucherCode (fst (remove_voucher_click st)) = None"
    by (simp add: getActiveVoucherCode_def clearActiveVoucher_def remove_voucher_click_def)
  show "getActiveVoucherCode (doLogout st) = None"
    by (simp add: getActiveVoucherCode_def doLogout_eq)
qed

theorem checkout_keeps_voucher_witness:
  "handleCheckoutForm order_form
      (signed_in\<lparr>cartItems := Some (JSON_stringify [pen]), os_active_voucher := Some ''BULK10''\<rparr>)
     = Inr (signed_in\<lparr>cartItems := None, os_active_voucher := Some ''BULK10''\<rparr>, OrderPlaced)
   \<and> getActiveVoucherCode (signed_in\<lparr>cartItems := None, os_active_voucher := Some ''BULK10''\<rparr>)
     = Some ''BULK10''"
proof -
  let ?st = "signed_in\<lparr>cartItems := Some (JSON_stringify [pen]), os_active_voucher := Some ''BULK10''\<rparr>"
  let ?st' = "signed_in\<lparr>cartItems := None, os_active_voucher := Some ''BULK10''\<rparr>"
  have l: "isLoggedIn ?st" by (simp add: isLoggedIn_def signed_in_def)
  have g: "getCartItems ?st = Inr [pen]" by (simp add: getCartItems_stored)
  have e: "?st\<lparr>cartItems := None\<rparr> = ?st'" by simp
  note t = checkout_keeps_voucher[of order_form ?st ?st' OrderPlaced "[pen]"]
  from t l g order_form_valid have 1: "handleCheckoutForm order_form ?st = Inr (?st', OrderPlaced)"
    unfolding e by blast
  with t have "getActiveVoucherCode ?st' = getActiveVoucherCode ?st" by blast
  then have 2: "getActiveVoucherCode ?st' = Some ''BULK10''"
    by (simp add: getActiveVoucherCode_def)
  show ?thesis using 1 2 by blast
qed

subsection \<open>Quantity controls\<close>

lemma updateQuantity_present:
  assumes "getCartItems st = Inr (bs @ x # as)" "\<forall>y\<in>set bs. id' y \<noteq> i" "id' x = i"
  shows "updateQuantity i q st
     = Inr (st\<lparr>cartItems := Some (JSON_stringify (bs @ x\<lparr>quantity := q\<rparr> # as))\<rparr>)"
  using assms by (simp add: updateQuantity_def extract_first saveCart_eq)

lemma updateQuantity_absent:
  assumes "getCartItems st = Inr cart" "\<forall>y\<in>set cart. id' y \<noteq> i"
  shows "updateQuantity i q st = Inr (st\<lparr>cartItems := Some (JSON_stringify cart)\<rparr>)"
  using assms by (simp add: updateQuantity_def extract_absent saveCart_eq)

lemma removeItem_eq:
  "getCartItems st = Inr cart \<Longrightarrow>
   removeItem i st = Inr (st\<lparr>cartItems := Some (JSON_stringify (filter (\<lambda>it. id' it \<noteq> i) cart))\<rparr>)"
  by (simp add: removeItem_def saveCart_eq)

lemma updateQuantity_positive:
  assumes g: "getCartItems st = Inr cart" and inv: "list_all (\<lambda>it. 1 \<le> quantity it) cart"
    and q: "1 \<le> q" and u: "updateQuantity i q st = Inr st'"
  shows "\<exists>c. getCartItems st' = Inr c \<and> list_all (\<lambda>it. 1 \<le> quantity it) c"
proof (cases "\<exists>x\<in>set cart. id' x = i")
  case True
  then obtain bs x as where c: "cart = bs @ x # as" "id' x = i" "\<forall>y\<in>set bs. id' y \<noteq> i"
    using first_match[of cart "\<lambda>x. id' x = i"] by blast
  from g c have "updateQuantity i q st
      = Inr (st\<lparr>cartItems := Some (JSON_stringify (bs @ x\<lparr>quantity := q\<rparr> # as))\<rparr>)"
    by (simp add: updateQuantity_present)
  with u have "getCartItems st' = Inr (bs @ x\<lparr>quantity := q\<rparr> # as)"
    by (auto simp: getCartItems_saved)
  moreover from inv c(1) q have "list_all (\<lambda>it. 1 \<le> quantity it) (bs @ x\<lparr>quantity := q\<rparr> # as)"
    by simp
  ultimately show ?thesis by blast
next
  case False
  with g have "updateQuantity i q st = Inr (st\<lparr>cartItems := Some (JSON_stringify cart)\<rparr>)"
    by (simp add: updateQuantity_absent)
  with u have "getCartItems st' = Inr cart" by (auto simp: getCartItems_saved)
  with inv show ?thesis by blast
qed

lemma removeItem_positive:
  assumes g: "getCartItems st = Inr cart" and inv: "list_all (\<lambda>it. 1 \<le> quantity it) cart"
    and u: "removeItem i st = Inr st'"
  shows "\<exists>c. getCartItems st' = Inr c \<and> list_all (\<lambda>it. 1 \<le> quantity it) c"
proof -
  from g u have "getCartItems st' = Inr (filter (\<lambda>it. id' it \<noteq> i) cart)"
    by (auto simp: removeItem_eq getCartItems_saved)
  moreover from inv have "list_all (\<lambda>it. 1 \<le> quantity it) (filter (\<lambda>it. id' it \<noteq> i) cart)"
    by (simp add: list_all_iff)
  ultimately show ?thesis by blast
qed

lemma addItemToCart_s1_positive:
  assumes g: "getCartItems st = Inr cart" and inv: "list_all (\<lambda>it. 1 \<le> quantity it) cart"
    and q: "1 \<le> quantity new" and u: "addItemToCart_s1 new st = Inr st'"
  shows "\<exists>c. getCartItems st' = Inr c \<and> list_all (\<lambda>it. 1 \<le> quantity it) c"
proof (cases "\<exists>x\<in>set cart. id' x = id' new")
  case True
  then obtain bs x as where c: "cart = bs @ x # as" "id' x = id' new" "\<forall>y\<in>set bs. id' y \<noteq> id' new"
    using first_match[of cart "\<lambda>x. id' x = id' new"] by blast
  from g c have "addItemToCart_s1 new st
      = Inr (st\<lparr>cartItems := Some (JSON_stringify (bs @ x\<lparr>quantity := quantity x + quantity new\<rparr> # as))\<rparr>)"
    by (simp add: addItemToCart_s1_present)
  with u have "getCartItems st' = Inr (bs @ x\<lparr>quantity := quantity x + quantity new\<rparr> # as)"
    by (auto simp: getCartItems_saved)
  moreover from inv c(1) q
  have "list_all (\<lambda>it. 1 \<le> quantity it) (bs @ x\<lparr>quantity := quantity x + quantity new\<rparr> # as)"
    by simp
  ultimately show ?thesis by blast
next
  case False
  with g have "addItemToCart_s1 new st = Inr (st\<lparr>cartItems := Some (JSON_stringify (cart @ [new]))\<rparr>)"
    by (simp add: addItemToCart_s1_new)
  with u have "getCartItems st' = Inr (cart @ [new])" by (auto simp: getCartItems_saved)
  moreover from inv q have "list_all (\<lambda>it. 1 \<le> quantity it) (cart @ [new])" by simp
  ultimately show ?thesis by blast
qed

lemma handleCheckoutForm_s1_cases:
  "handleCheckoutForm_s1 f st =
     (if \<not> validateCheckoutForm f then Inr (st, FormRejected)
      else case getCartItems st of
             Inl e \<Rightarrow> Inl e
           | Inr cart \<Rightarrow> Inr (st\<lparr>cartItems := None\<rparr>, OrderPlaced))"
  by (simp add: handleCheckoutForm_s1_def updateCartCount_def getCartItems_absent Let_def
      split: sum.splits)

text \<open>Every storage that \<^verbatim>\<open>script1.js\<close> reaches holds a readable cart whose quantities
  are all at least 1.\<close>

lemma reachable_s1_positive:
  "reachable_s1 st \<Longrightarrow> \<exists>c. getCartItems st = Inr c \<and> list_all (\<lambda>it. 1 \<le> quantity it) c"
proof (induction rule: reachable_s1.induct)
  case (start st)
  then show ?case by (simp add: getCartItems_absent)
next
  case (add st i n p img st')
  then obtain c where c: "getCartItems st = Inr c" "list_all (\<lambda>it. 1 \<le> quantity it) c" by blast
  show ?case
    by (rule addItemToCart_s1_positive[OF c _ add.hyps(2)]) simp
next
  case (change st i v st')
  then obtain c where c: "getCartItems st = Inr c" "list_all (\<lambda>it. 1 \<le> quantity it) c" by blast
  show ?case
  proof (cases "\<exists>n. parseInt v 0 = Some n \<and> 0 < n")
    case True
    then obtain n where n: "parseInt v 0 = Some n" "0 < n" by blast
    with change.hyps(2) have "updateQuantity i n st = Inr st'"
      by (simp add: quantity_input_change_s1_def)
    with c n show ?thesis using updateQuantity_positive[of st c n i st'] by simp
  next
    case False
    with change.hyps(2) have "removeItem i st = Inr st'"
      by (auto simp: quantity_input_change_s1_def split: option.splits if_splits)
    with c show ?thesis using removeItem_positive by blast
  qed
next
  case (remove st i st')
  then show ?case using removeItem_positive by blast
next
  case (checkout st f st' r)
  from checkout.hyps(2) have "st' = st \<or> st' = st\<lparr>cartItems := None\<rparr>"
    by (auto simp: handleCheckoutForm_s1_cases split: if_splits sum.splits)
  then show ?case using checkout.IH by (auto simp: getCartItems_absent)
qed

lemma parseInt_examples:
  "parseInt ''0'' 10 = Some 0" "parseInt ''-3'' 10 = Some (- 3)" "parseInt ''0'' 0 = Some 0"
  "parseInt [] 10 = None" "parseInt ''3'' 10 = Some 3"
  by (simp_all add: parseInt_def digitValue_def isWhiteSpace_def)

text \<open>
  Claim C5 says that a quantity value below 1 removes the item. In the current script it
  does not: on the cart page the value \<^verbatim>\<open>0\<close> is replaced by 1, and on the checkout
  page the value \<^verbatim>\<open>-3\<close> is raised to 1; the line stays in the cart with quantity 1,
  whereas removing it would leave the cart empty.
\<close>

theorem quantity_below_one_not_removed:
  "cartList_change ''A'' ''0'' (signed_in\<lparr>cartItems := Some (JSON_stringify [pen\<lparr>quantity := 2\<rparr>])\<rparr>)
     = Inr (signed_in\<lparr>cartItems := Some (JSON_stringify [pen\<lparr>quantity := 1\<rparr>])\<rparr>)
   \<and> checkout_qty_input_change ''A'' ''-3''
        (signed_in\<lparr>cartItems := Some (JSON_stringify [pen\<lparr>quantity := 2\<rparr>])\<rparr>)
     = Inr (signed_in\<lparr>cartItems := Some (JSON_stringify [pen\<lparr>quantity := 1\<rparr>])\<rparr>)
   \<and> removeItem ''A'' (signed_in\<lparr>cartItems := Some (JSON_stringify [pen\<lparr>quantity := 2\<rparr>])\<rparr>)
     = Inr (signed_in\<lparr>cartItems := Some (JSON_stringify [])\<rparr>)
   \<and> cartList_change ''A'' ''0'' (signed_in\<lparr>cartItems := Some (JSON_stringify [pen\<lparr>quantity := 2\<rparr>])\<rparr>)
     \<noteq> removeItem ''A'' (signed_in\<lparr>cartItems := Some (JSON_stringify [pen\<lparr>quantity := 2\<rparr>])\<rparr>)"
proof -
  let ?st = "signed_in\<lparr>cartItems := Some (JSON_stringify [pen\<lparr>quantity := 2\<rparr>])\<rparr>"
  have g: "getCartItems ?st = Inr ([] @ pen\<lparr>quantity := 2\<rparr> # [])"
    by (simp add: getCartItems_saved)
  have u: "updateQuantity ''A'' 1 ?st
      = Inr (signed_in\<lparr>cartItems := Some (JSON_stringify [pen\<lparr>quantity := 1\<rparr>])\<rparr>)"
    using updateQuantity_present[OF g, of "''A''" 1] by (simp add: pen_def)
  have r: "removeItem ''A'' ?st = Inr (signed_in\<lparr>cartItems := Some (JSON_stringify [])\<rparr>)"
    using removeItem_eq[of ?st "[pen\<lparr>quantity := 2\<rparr>]" "''A''"]
    by (simp add: getCartItems_saved pen_def)
  show ?thesis
    using u r
    by (simp add: cartList_change_def checkout_qty_input_change_def parseInt_examples
        JSON_stringify_def signed_in_def)
qed

text \<open>
  Claim C5 as the code has it. In \<^verbatim>\<open>script1.js\<close> every reachable cart has quantities of
  at least 1, and a quantity value that is not a number or is below 1 removes the item.
  In the current script a quantity edit never removes a line: the cart page stores 1 for
  an empty, non-numeric or zero value, the checkout page stores 1 for every value that is
  not a number or is below 1, and the line is kept with quantity 1. These edits keep all
  quantities at least 1: the checkout page for every value, the cart page for every
  value that is not negative.
\<close>

theorem quantity_controls:
  "(reachable_s1 st \<longrightarrow> (\<exists>c. getCartItems st = Inr c \<and> list_all (\<lambda>it. 1 \<le> quantity it) c))
   \<and> ((\<forall>n. parseInt v 0 = Some n \<longrightarrow> n < 1) \<longrightarrow>
        quantity_input_change_s1 i v st = removeItem i st)
   \<and> (getCartItems st = Inr cart \<longrightarrow>
        removeItem i st
          = Inr (st\<lparr>cartItems := Some (JSON_stringify (filter (\<lambda>it. id' it \<noteq> i) cart))\<rparr>))
   \<and> (parseInt v 10 = None \<or> parseInt v 10 = Some 0 \<longrightarrow>
        cartList_change i v st = updateQuantity i 1 st)
   \<and> ((\<forall>n. parseInt v 10 = Some n \<longrightarrow> n < 1) \<longrightarrow>
        checkout_qty_input_change i v st = updateQuantity i 1 st)
   \<and> (getCartItems st = Inr (bs @ x # as) \<and> (\<forall>y\<in>set bs. id' y \<noteq> i) \<and> id' x = i \<longrightarrow>
        updateQuantity i 1 st
          = Inr (st\<lparr>cartItems := Some (JSON_stringify (bs @ x\<lparr>quantity := 1\<rparr> # as))\<rparr>))
   \<and> (getCartItems st = Inr cart \<and> list_all (\<lambda>it. 1 \<le> quantity it) cart
        \<and> checkout_qty_input_change i v st = Inr st' \<longrightarrow>
        (\<exists>c. getCartItems st' = Inr c \<and> list_all (\<lambda>it. 1 \<le> quantity it) c))
   \<and> (getCartItems st = Inr cart \<and> list_all (\<lambda>it. 1 \<le> quantity it) cart
        \<and> (\<forall>n. parseInt v 10 = Some n \<longrightarrow> 0 \<le> n) \<and> cartList_change i v st = Inr st' \<longrightarrow>
        (\<exists>c. getCartItems st' = Inr c \<and> list_all (\<lambda>it. 1 \<le> quantity it) c))"
proof (intro conjI impI)
  assume "reachable_s1 st"
  then show "\<exists>c. getCartItems st = Inr c \<and> list_all (\<lambda>it. 1 \<le> quantity it) c"
    by (rule reachable_s1_positive)
next
  assume "\<forall>n. parseInt v 0 = Some n \<longrightarrow> n < 1"
  then show "quantity_input_change_s1 i v st = removeItem i st"
    by (cases "parseInt v 0") (auto simp: quantity_input_change_s1_def)
next
  assume "getCartItems st = Inr cart"
  then show "removeItem i st
      = Inr (st\<lparr>cartItems := Some (JSON_stringify (filter (\<lambda>it. id' it \<noteq> i) cart))\<rparr>)"
    by (rule removeItem_eq)
next
  assume "parseInt v 10 = None \<or> parseInt v 10 = Some 0"
  then show "cartList_change i v st = updateQuantity i 1 st"
    by (auto simp: cartList_change_def)
next
  assume a: "\<forall>n. parseInt v 10 = Some n \<longrightarrow> n < 1"
  show "checkout_qty_input_change i v st = updateQuantity i 1 st"
  proof (cases "parseInt v 10")
    case None
    then show ?thesis by (simp add: checkout_qty_input_change_def)
  next
    case (Some n)
    with a have "n < 1" by simp
    with Some show ?thesis by (simp add: checkout_qty_input_change_def Let_def)
  qed
next
  assume "getCartItems st = Inr (bs @ x # as) \<and> (\<forall>y\<in>set bs. id' y \<noteq> i) \<and> id' x = i"
  then show "updateQuantity i 1 st
      = Inr (st\<lparr>cartItems := Some (JSON_stringify (bs @ x\<lparr>quantity := 1\<rparr> # as))\<rparr>)"
    by (simp add: updateQuantity_present)
next
  assume a: "getCartItems st = Inr cart \<and> list_all (\<lambda>it. 1 \<le> quantity it) cart
        \<and> checkout_qty_input_change i v st = Inr st'"
  let ?q = "case parseInt v 10 of None \<Rightarrow> 1 | Some n \<Rightarrow> if n = 0 then 1 else n"
  from a have "updateQuantity i (if ?q < 1 then 1 else ?q) st = Inr st'"
    by (simp add: checkout_qty_input_change_def Let_def)
  moreover have "1 \<le> (if ?q < 1 then 1 else ?q)" by simp
  ultimately show "\<exists>c. getCartItems st' = Inr c \<and> list_all (\<lambda>it. 1 \<le> quantity it) c"
    using a updateQuantity_positive by blast
next
  assume a: "getCartItems st = Inr cart \<and> list_all (\<lambda>it. 1 \<le> quantity it) cart
        \<and> (\<forall>n. parseInt v 10 = Some n \<longrightarrow> 0 \<le> n) \<and> cartList_change i v st = Inr st'"
  let ?q = "case parseInt v 10 of None \<Rightarrow> 1 | Some n \<Rightarrow> if n = 0 then 1 else n"
  from a have "updateQuantity i ?q st = Inr st'"
    by (simp add: cartList_change_def Let_def)
  moreover from a have "1 \<le> ?q" by (cases "parseInt v 10") auto
  ultimately show "\<exists>c. getCartItems st' = Inr c \<and> list_all (\<lambda>it. 1 \<le> quantity it) c"
    using a updateQuantity_positive by blast
qed

theorem quantity_controls_witness:
  "reachable_s1 (signed_in\<lparr>cartItems := Some (JSON_stringify [pen])\<rparr>)
   \<and> (\<exists>c. getCartItems (signed_in\<lparr>cartItems := Some (JSON_stringify [pen])\<rparr>) = Inr c
          \<and> list_all (\<lambda>it. 1 \<le> quantity it) c)
   \<and> quantity_input_change_s1 ''A'' ''0'' (signed_in\<lparr>cartItems := Some (JSON_stringify [pen])\<rparr>)
     = Inr (signed_in\<lparr>cartItems := Some (JSON_stringify [])\<rparr>)
   \<and> cartList_change ''A'' [] (signed_in\<lparr>cartItems := Some (JSON_stringify [pen\<lparr>quantity := 2\<rparr>])\<rparr>)
     = Inr (signed_in\<lparr>cartItems := Some (JSON_stringify [pen\<lparr>quantity := 1\<rparr>])\<rparr>)
   \<and> checkout_qty_input_change ''A'' ''-3''
        (signed_in\<lparr>cartItems := Some (JSON_stringify [pen\<lparr>quantity := 2\<rparr>])\<rparr>)
     = Inr (signed_in\<lparr>cartItems := Some (JSON_stringify [pen\<lparr>quantity := 1\<rparr>])\<rparr>)"
proof -
  let ?st1 = "signed_in\<lparr>cartItems := Some (JSON_stringify [pen])\<rparr>"
  let ?st2 = "signed_in\<lparr>cartItems := Some (JSON_stringify [pen\<lparr>quantity := 2\<rparr>])\<rparr>"
  have "reachable_s1 signed_in" by (rule reachable_s1.start) (simp add: signed_in_def)
  moreover have "addItemToCart_s1 \<lparr>id' = ''A'', name = ''Pen'', price = 100, image' = ''pen.png'', quantity = 1\<rparr> signed_in
      = Inr ?st1"
    by (simp add: addItemToCart_s1_new getCartItems_absent signed_in_def pen_def)
  ultimately have r: "reachable_s1 ?st1" by (rule reachable_s1.add)
  have g1: "getCartItems ?st1 = Inr [pen]" by (rule getCartItems_saved)
  have g2: "getCartItems ?st2 = Inr ([] @ pen\<lparr>quantity := 2\<rparr> # [])" by (simp add: getCartItems_saved)
  note t1 = quantity_controls[of ?st1 "''0''" "''A''" "[pen]"]
  note t2 = quantity_controls[of ?st2 "[]" "''A''" _ "[]" "pen\<lparr>quantity := 2\<rparr>" "[]"]
  note t3 = quantity_controls[of ?st2 "''-3''" "''A''" _ "[]" "pen\<lparr>quantity := 2\<rparr>" "[]"]
  from t1 r have a: "\<exists>c. getCartItems ?st1 = Inr c \<and> list_all (\<lambda>it. 1 \<le> quantity it) c"
    by blast
  from t1 g1 have "quantity_input_change_s1 ''A'' ''0'' ?st1
      = Inr (?st1\<lparr>cartItems := Some (JSON_stringify (filter (\<lambda>it. id' it \<noteq> ''A'') [pen]))\<rparr>)"
    by (simp add: parseInt_examples)
  then have b: "quantity_input_change_s1 ''A'' ''0'' ?st1
      = Inr (signed_in\<lparr>cartItems := Some (JSON_stringify [])\<rparr>)"
    by (simp add: pen_def)
  have u: "updateQuantity ''A'' 1 ?st2
      = Inr (signed_in\<lparr>cartItems := Some (JSON_stringify [pen\<lparr>quantity := 1\<rparr>])\<rparr>)"
    using t2 g2 by (simp add: pen_def)
  from t2 have c: "cartList_change ''A'' [] ?st2 = updateQuantity ''A'' 1 ?st2"
    by (simp add: parseInt_examples)
  from t3 have d: "checkout_qty_input_change ''A'' ''-3'' ?st2 = updateQuantity ''A'' 1 ?st2"
    by (simp add: parseInt_examples)
  show ?thesis using r a b c d u by simp
qed

subsection \<open>Bounds on the totals\<close>

text \<open>The total is never negative, and the discount does not exceed a subtotal that is
  not negative, as it is for every cart with prices and quantities that are not
  negative.\<close>

lemma total_nonnegative: "0 \<le> total (calculateCartTotals st cart)"
  by (simp add: calculateCartTotals_def Let_def SHIPPING_FEE_def)

lemma discount_le_subtotal:
  assumes "0 \<le> subtotal (calculateCartTotals st cart)"
  shows "discount (calculateCartTotals st cart) \<le> subtotal (calculateCartTotals st cart)"
proof -
  let ?sub = "\<Sum>it\<leftarrow>cart. price it * of_int (quantity it)"
  from assms have s: "0 \<le> ?sub" by (simp add: totals_refine computeTotals_def Let_def)
  show ?thesis
  proof (cases "getVoucherByCode (getActiveVoucherCode st)")
    case None
    with s show ?thesis by (simp add: totals_refine computeTotals_def Let_def)
  next
    case (Some vo)
    then obtain k where "VOUCHERS k = Some vo"
      by (auto simp: getVoucherByCode_def split: option.splits if_splits)
    from VOUCHERS_Some[OF this] s Some show ?thesis
      by (auto simp: totals_refine computeTotals_def Let_def)
  qed
qed

lemma subtotal_nonnegative:
  "list_all (\<lambda>it. 0 \<le> price it \<and> 0 \<le> quantity it) cart \<Longrightarrow>
   0 \<le> subtotal (calculateCartTotals st cart)"
  by (auto simp: totals_refine computeTotals_def Let_def list_all_iff intro!: sum_list_nonneg)

text \<open>
  Claim C6. For every reachable cart and active voucher code the total is at least 0 and
  the discount does not exceed the subtotal. The cart page of the current script reaches
  a cart outside the second bound: after one pen is added, the value \<^verbatim>\<open>-3\<close> in the
  quantity input is stored as the quantity, the subtotal is -300 and the discount, 0, is
  above it.
\<close>

theorem negative_quantity_totals:
  "addItemToCart plain_host pen signed_in
     = Inr (signed_in\<lparr>cartItems := Some (JSON_stringify [pen])\<rparr>)
   \<and> cartList_change ''A'' ''-3'' (signed_in\<lparr>cartItems := Some (JSON_stringify [pen])\<rparr>)
     = Inr (signed_in\<lparr>cartItems := Some (JSON_stringify [pen\<lparr>quantity := - 3\<rparr>])\<rparr>)
   \<and> calculateCartTotals (signed_in\<lparr>cartItems := Some (JSON_stringify [pen\<lparr>quantity := - 3\<rparr>])\<rparr>)
        [pen\<lparr>quantity := - 3\<rparr>]
     = \<lparr>subtotal = - 300, discount = 0, shipping = 0, total = 0, itemCount = - 3,
        appliedVoucher = None\<rparr>
   \<and> subtotal (calculateCartTotals (signed_in\<lparr>cartItems := Some (JSON_stringify [pen\<lparr>quantity := - 3\<rparr>])\<rparr>)
        [pen\<lparr>quantity := - 3\<rparr>])
     < discount (calculateCartTotals (signed_in\<lparr>cartItems := Some (JSON_stringify [pen\<lparr>quantity := - 3\<rparr>])\<rparr>)
        [pen\<lparr>quantity := - 3\<rparr>])"
proof -
  let ?st1 = "signed_in\<lparr>cartItems := Some (JSON_stringify [pen])\<rparr>"
  let ?st2 = "signed_in\<lparr>cartItems := Some (JSON_stringify [pen\<lparr>quantity := - 3\<rparr>])\<rparr>"
  have 1: "addItemToCart plain_host pen signed_in = Inr ?st1"
    by (simp add: addItemToCart_new getCartItems_absent signed_in_def pen_def normalize_plain)
  have g: "getCartItems ?st1 = Inr ([] @ pen # [])" by (simp add: getCartItems_saved)
  have 2: "cartList_change ''A'' ''-3'' ?st1 = Inr ?st2"
    using updateQuantity_present[OF g, of "''A''" "- 3"]
    by (simp add: cartList_change_def parseInt_examples pen_def)
  have 3: "calculateCartTotals ?st2 [pen\<lparr>quantity := - 3\<rparr>]
     = \<lparr>subtotal = - 300, discount = 0, shipping = 0, total = 0, itemCount = - 3,
        appliedVoucher = None\<rparr>"
    by (simp add: calculateCartTotals_def getActiveVoucherCode_def signed_in_def pen_def)
  show ?thesis using 1 2 by (simp add: 3)
qed

subsection \<open>Applying a voucher\<close>

lemma discount_positive_iff:
  assumes "getVoucherByCode c = Some vo"
  shows "(calculateVoucherDiscount cart c \<le> 0)
       = ((\<Sum>it\<leftarrow>cart. price it * of_int (quantity it)) < minSpend vo)"
proof -
  from assms obtain k where k: "VOUCHERS k = Some vo"
    by (auto simp: getVoucherByCode_def split: option.splits if_splits)
  from VOUCHERS_Some[OF k] show ?thesis
    by (auto simp: discount_by_cases assms)
qed

lemma VOUCHERS_code: "VOUCHERS k = Some vo \<Longrightarrow> code vo = k"
  by (auto simp: VOUCHERS_def split: if_splits)

lemma getVoucherByCode_code:
  assumes "getVoucherByCode (Some s) = Some vo"
  shows "code vo = toUpperCase (trim s)" and "toUpperCase (trim s) \<noteq> []"
    and "toUpperCase (trim (code vo)) = code vo"
proof -
  from assms have k: "VOUCHERS (toUpperCase (trim s)) = Some vo"
    by (auto simp: getVoucherByCode_def split: if_splits)
  then show 1: "code vo = toUpperCase (trim s)" by (rule VOUCHERS_code)
  from k show "toUpperCase (trim s) \<noteq> []" by (auto simp: VOUCHERS_Nil)
  have "toUpperCase (trim (toUpperCase (trim s))) = toUpperCase (trim s)"
    using normalise_idem[of s] by (simp add: trim_toUpperCase)
  with 1 show "toUpperCase (trim (code vo)) = code vo" by simp
qed

lemma resolved_nonempty: "getVoucherByCode (Some s) = Some vo \<Longrightarrow> s \<noteq> []"
  by (auto simp: getVoucherByCode_def)

text \<open>A copy refuses a code that resolves to no voucher, and one whose minimum spend its
  cart does not reach; storage and page stay as they were.\<close>

lemma apply_voucher_click_unknown:
  "getVoucherByCode (Some (toUpperCase (trim (code_input pg)))) = None \<Longrightarrow>
   fst (apply_voucher_click cart st pg) = st \<and> fst (snd (apply_voucher_click cart st pg)) = pg"
  by (simp add: apply_voucher_click_def Let_def)

lemma apply_voucher_click_below:
  assumes "getVoucherByCode (Some (toUpperCase (trim (code_input pg)))) = Some vo"
    and "(\<Sum>it\<leftarrow>cart. price it * of_int (quantity it)) < minSpend vo"
  shows "apply_voucher_click cart st pg = (st, pg, ''Voucher does not meet requirements'')"
  using assms discount_positive_iff[OF assms(1), of cart] resolved_nonempty[OF assms(1)]
  by (simp add: apply_voucher_click_def Let_def)

lemma apply_voucher_click_reached:
  assumes "getVoucherByCode (Some (toUpperCase (trim (code_input pg)))) = Some vo"
    and "\<not> (\<Sum>it\<leftarrow>cart. price it * of_int (quantity it)) < minSpend vo"
  shows "fst (apply_voucher_click cart st pg)
           = st\<lparr>os_active_voucher := Some (toUpperCase (trim (code_input pg)))\<rparr>"
    and "fst (snd (apply_voucher_click cart st pg))
           = (case renderCart (st\<lparr>os_active_voucher := Some (toUpperCase (trim (code_input pg)))\<rparr>) pg of
                Inr p \<Rightarrow> p | Inl e \<Rightarrow> pg)"
  using assms discount_positive_iff[OF assms(1), of cart] resolved_nonempty[OF assms(1)]
  by (simp_all add: apply_voucher_click_def Let_def setActiveVoucherCode_def)

lemma apply_voucher_click_frame:
  "cartItems (fst (apply_voucher_click cart st pg)) = cartItems st
   \<and> os_current_user (fst (apply_voucher_click cart st pg)) = os_current_user st
   \<and> os_saved_username (fst (apply_voucher_click cart st pg)) = os_saved_username st"
  by (simp add: apply_voucher_click_def Let_def setActiveVoucherCode_def)

text \<open>A render with a voucher applied leaves both the stored cart in the \<^verbatim>\<open>onclick\<close>
  copy and the voucher's code in the input.\<close>

lemma renderCart_applied:
  assumes "getCartItems st = Inr cart" "cart \<noteq> []"
    and "os_active_voucher st = Some c" "getVoucherByCode (Some c) = Some vo"
  shows "\<exists>p. renderCart st pg = Inr p \<and> onclick_cart p = Some cart \<and> code_input p = code vo
           \<and> listener_cart p = (if voucher_controls pg then listener_cart pg else Some cart)"
proof -
  from assms(4) have "c \<noteq> []" by (auto simp: getVoucherByCode_def)
  with assms(3) have "getActiveVoucherCode st = Some c" by (simp add: getActiveVoucherCode_def)
  then have "appliedVoucher (calculateCartTotals st cart) = Some c"
    by (simp add: calculateCartTotals_def Let_def)
  with assms show ?thesis by (simp add: renderCart_def Let_def)
qed

lemma renderCart_copies:
  assumes "getCartItems st = Inr cart" "cart \<noteq> []"
  shows "\<exists>p. renderCart st pg = Inr p \<and> onclick_cart p = Some cart
           \<and> listener_cart p = (if voucher_controls pg then listener_cart pg else Some cart)"
  using assms by (auto simp: renderCart_def Let_def split: option.splits)

lemma reached_nonempty:
  assumes "getVoucherByCode c = Some vo"
    and "\<not> (\<Sum>it\<leftarrow>cart. price it * of_int (quantity it)) < minSpend vo"
  shows "cart \<noteq> []"
  using assms getVoucherByCode_minSpend[OF assms(1)] by auto

lemma normalise_twice:
  "toUpperCase (trim (toUpperCase (trim s))) = toUpperCase (trim s)"
  using normalise_idem[of s] by (simp add: trim_toUpperCase)

lemma getCartItems_voucher_update:
  "getCartItems (st\<lparr>os_active_voucher := x\<rparr>) = getCartItems st"
  by (simp add: getCartItems_def)

lemma apply_button_click_fst:
  "fst (apply_button_click v st pg) =
     (let pg0 = pg\<lparr>code_input := v\<rparr>;
          st1 = (case listener_cart pg of
                   None \<Rightarrow> st
                 | Some c0 \<Rightarrow> fst (apply_voucher_click c0 st pg0));
          pg1 = (case listener_cart pg of
                   None \<Rightarrow> pg0
                 | Some c0 \<Rightarrow> fst (snd (apply_voucher_click c0 st pg0)))
      in case onclick_cart pg1 of
           None \<Rightarrow> st1
         | Some c1 \<Rightarrow> fst (apply_voucher_click c1 st1 pg1))"
  by (simp add: apply_button_click_def Let_def split: option.splits prod.splits)

lemma apply_button_click_unknown:
  assumes "getVoucherByCode (Some (toUpperCase (trim v))) = None"
  shows "fst (apply_button_click v st pg) = st"
proof -
  let ?pg0 = "pg\<lparr>code_input := v\<rparr>"
  have n: "getVoucherByCode (Some (toUpperCase (trim (code_input ?pg0)))) = None"
    using assms by simp
  have 1: "fst (apply_voucher_click c0 st ?pg0) = st"
    "fst (snd (apply_voucher_click c0 st ?pg0)) = ?pg0" for c0
    using apply_voucher_click_unknown[OF n] by simp_all
  show ?thesis
    unfolding apply_button_click_fst Let_def
    by (auto simp: 1 split: option.splits)
qed

lemma apply_button_click_rendered:
  assumes g: "getCartItems st = Inr cart" and o: "onclick_cart pg = Some cart"
    and l: "listener_cart pg = None \<or> listener_cart pg = Some cart"
  shows "fst (apply_button_click v st pg) =
     (case getVoucherByCode (Some (toUpperCase (trim v))) of
        None \<Rightarrow> st
      | Some vo \<Rightarrow>
          if (\<Sum>it\<leftarrow>cart. price it * of_int (quantity it)) < minSpend vo then st
          else st\<lparr>os_active_voucher := Some (toUpperCase (trim v))\<rparr>)"
proof (cases "getVoucherByCode (Some (toUpperCase (trim v)))")
  case None
  then show ?thesis by (simp add: apply_button_click_unknown)
next
  case (Some vo)
  let ?c = "toUpperCase (trim v)"
  let ?pg0 = "pg\<lparr>code_input := v\<rparr>"
  have r: "getVoucherByCode (Some (toUpperCase (trim (code_input ?pg0)))) = Some vo"
    using Some by simp
  show ?thesis
  proof (cases "(\<Sum>it\<leftarrow>cart. price it * of_int (quantity it)) < minSpend vo")
    case True
    have "apply_voucher_click cart st ?pg0 = (st, ?pg0, ''Voucher does not meet requirements'')"
      by (rule apply_voucher_click_below[OF r True])
    then show ?thesis
      unfolding apply_button_click_fst Let_def using l o Some True by auto
  next
    case False
    let ?st' = "st\<lparr>os_active_voucher := Some ?c\<rparr>"
    have once: "fst (apply_voucher_click cart st ?pg0) = ?st'"
      using apply_voucher_click_reached(1)[OF r False] by simp
    from l show ?thesis
    proof
      assume "listener_cart pg = None"
      then show ?thesis
        unfolding apply_button_click_fst Let_def using o Some False once by simp
    next
      assume ls: "listener_cart pg = Some cart"
      have ne: "cart \<noteq> []" by (rule reached_nonempty[OF Some False])
      have "\<exists>p. renderCart ?st' ?pg0 = Inr p \<and> onclick_cart p = Some cart \<and> code_input p = code vo
           \<and> listener_cart p = (if voucher_controls ?pg0 then listener_cart ?pg0 else Some cart)"
        by (rule renderCart_applied[where c = ?c])
          (simp_all add: getCartItems_voucher_update g ne Some)
      then obtain p where p: "renderCart ?st' ?pg0 = Inr p" "onclick_cart p = Some cart"
          "code_input p = code vo"
        by blast
      have pg1: "fst (snd (apply_voucher_click cart st ?pg0)) = p"
        using apply_voucher_click_reached(2)[OF r False] p(1) by simp
      have r2: "getVoucherByCode (Some (toUpperCase (trim (code_input p)))) = Some vo"
        using getVoucherByCode_code(1,3)[OF Some] Some p(3) by (simp add: normalise_twice)
      have "fst (apply_voucher_click cart ?st' p)
            = ?st'\<lparr>os_active_voucher := Some (toUpperCase (trim (code_input p)))\<rparr>"
        by (rule apply_voucher_click_reached(1)[OF r2 False])
      also have "toUpperCase (trim (code_input p)) = ?c"
        using getVoucherByCode_code(1,3)[OF Some] p(3) by (simp add: normalise_twice)
      finally have twice: "fst (apply_voucher_click cart ?st' p) = ?st'" by simp
      show ?thesis
        unfolding apply_button_click_fst Let_def
        using ls Some False once pg1 p(2) twice by simp
    qed
  qed
qed

lemma apply_button_click_frame:
  "cartItems (fst (apply_button_click v st pg)) = cartItems st
   \<and> os_current_user (fst (apply_button_click v st pg)) = os_current_user st
   \<and> os_saved_username (fst (apply_button_click v st pg)) = os_saved_username st"
  unfolding apply_button_click_fst Let_def
  by (auto simp: apply_voucher_click_frame split: option.splits)

lemma appliedVoucher_eq:
  "appliedVoucher (calculateCartTotals st cart) = getActiveVoucherCode st"
  by (simp add: calculateCartTotals_def Let_def)

text \<open>
  Claim C4 says that applying a code does not validate eligibility: every code of the
  table would be stored as the active code, whatever the cart. The Apply handler does
  check the minimum spend. The cart page is rendered for a cart of subtotal 200, so that
  both copies of the handler hold this cart; a click with \<^verbatim>\<open>OFFI2025\<close> (minimum spend
  500), which resolves to a voucher, is refused by both copies and no active code is
  stored.
\<close>

theorem apply_button_click_below_minSpend:
  "getVoucherByCode (Some ''OFFI2025'') \<noteq> None
   \<and> renderCart (signed_in\<lparr>cartItems := Some (JSON_stringify [pen\<lparr>quantity := 2\<rparr>])\<rparr>) fresh_page
       = Inr \<lparr>voucher_controls = True, listener_cart = Some [pen\<lparr>quantity := 2\<rparr>],
              onclick_cart = Some [pen\<lparr>quantity := 2\<rparr>], code_input = []\<rparr>
   \<and> apply_button_click ''OFFI2025''
         (signed_in\<lparr>cartItems := Some (JSON_stringify [pen\<lparr>quantity := 2\<rparr>])\<rparr>)
         \<lparr>voucher_controls = True, listener_cart = Some [pen\<lparr>quantity := 2\<rparr>],
            onclick_cart = Some [pen\<lparr>quantity := 2\<rparr>], code_input = []\<rparr>
       = (signed_in\<lparr>cartItems := Some (JSON_stringify [pen\<lparr>quantity := 2\<rparr>])\<rparr>,
          \<lparr>voucher_controls = True, listener_cart = Some [pen\<lparr>quantity := 2\<rparr>],
             onclick_cart = Some [pen\<lparr>quantity := 2\<rparr>], code_input = ''OFFI2025''\<rparr>,
          [''Voucher does not meet requirements'', ''Voucher does not meet requirements''])
   \<and> getActiveVoucherCode (signed_in\<lparr>cartItems := Some (JSON_stringify [pen\<lparr>quantity := 2\<rparr>])\<rparr>)
       = None"
proof -
  let ?st = "signed_in\<lparr>cartItems := Some (JSON_stringify [pen\<lparr>quantity := 2\<rparr>])\<rparr>"
  let ?pg = "\<lparr>voucher_controls = True, listener_cart = Some [pen\<lparr>quantity := 2\<rparr>],
              onclick_cart = Some [pen\<lparr>quantity := 2\<rparr>], code_input = ''OFFI2025''\<rparr>"
  have u: "toUpperCase (trim ''OFFI2025'') = ''OFFI2025''" by code_simp
  have v: "getVoucherByCode (Some ''OFFI2025'')
      = Some \<lparr>code = ''OFFI2025'', rule = Amount 100, minSpend = 500,
          description = peso @ ''100 OFF min. spend '' @ peso @ ''500''\<rparr>"
    by (simp add: getVoucherByCode_OFFI2025 VOUCHERS_def)
  have a: "getActiveVoucherCode ?st = None"
    by (simp add: getActiveVoucherCode_def signed_in_def)
  have r: "renderCart ?st fresh_page
       = Inr \<lparr>voucher_controls = True, listener_cart = Some [pen\<lparr>quantity := 2\<rparr>],
              onclick_cart = Some [pen\<lparr>quantity := 2\<rparr>], code_input = []\<rparr>"
    by (simp add: renderCart_def getCartItems_saved appliedVoucher_eq a fresh_page_def Let_def)
  have c: "apply_voucher_click [pen\<lparr>quantity := 2\<rparr>] ?st ?pg
      = (?st, ?pg, ''Voucher does not meet requirements'')"
    by (rule apply_voucher_click_below[where vo = "\<lparr>code = ''OFFI2025'', rule = Amount 100,
          minSpend = 500, description = peso @ ''100 OFF min. spend '' @ peso @ ''500''\<rparr>"])
      (simp_all add: u v pen_def)
  have "apply_button_click ''OFFI2025'' ?st
         \<lparr>voucher_controls = True, listener_cart = Some [pen\<lparr>quantity := 2\<rparr>],
            onclick_cart = Some [pen\<lparr>quantity := 2\<rparr>], code_input = []\<rparr>
       = (?st, ?pg, [''Voucher does not meet requirements'', ''Voucher does not meet requirements''])"
    by (simp add: apply_button_click_def c)
  then show ?thesis using v r a by simp
qed

text \<open>
  Claim C4 as the code has it. Applying a code validates eligibility at apply time. A
  click on Apply runs the registered copies of the handler on the trimmed, upper-cased
  input. A code that resolves to no voucher is refused and the storage is left as it
  was, whatever the copies hold. When every registered copy holds the cart that is
  stored (as after the render that injected the controls, or when only the
  \<^verbatim>\<open>onclick\<close> copy exists and the page was rendered from the stored cart), the click
  stores the code as the active code exactly when it resolves to a voucher and the
  cart's subtotal reaches that voucher's minimum spend, and otherwise leaves the storage
  as it was. A click changes no key but the active voucher code.
  \<^verbatim>\<open>setActiveVoucherCode\<close> itself stores any non-empty code. Eligibility is evaluated
  again whenever totals are computed: a stored code whose minimum spend the cart does not
  reach gives discount 0 and is still reported as the applied voucher.
\<close>

theorem apply_button_click_spec:
  "(getVoucherByCode (Some (toUpperCase (trim v))) = None \<longrightarrow>
      fst (apply_button_click v st pg) = st)
   \<and> (getCartItems st = Inr cart \<and> onclick_cart pg = Some cart
        \<and> (listener_cart pg = None \<or> listener_cart pg = Some cart) \<longrightarrow>
      fst (apply_button_click v st pg) =
        (case getVoucherByCode (Some (toUpperCase (trim v))) of
           None \<Rightarrow> st
         | Some vo \<Rightarrow>
             if (\<Sum>it\<leftarrow>cart. price it * of_int (quantity it)) < minSpend vo then st
             else st\<lparr>os_active_voucher := Some (toUpperCase (trim v))\<rparr>))
   \<and> (getCartItems st = Inr cart \<and> cart \<noteq> [] \<longrightarrow>
      (\<exists>p. renderCart st pg0 = Inr p \<and> onclick_cart p = Some cart
           \<and> listener_cart p = (if voucher_controls pg0 then listener_cart pg0 else Some cart)))
   \<and> cartItems (fst (apply_button_click v st pg)) = cartItems st
   \<and> os_current_user (fst (apply_button_click v st pg)) = os_current_user st
   \<and> os_saved_username (fst (apply_button_click v st pg)) = os_saved_username st
   \<and> getActiveVoucherCode (setActiveVoucherCode (Some c) st) = (if c = [] then None else Some c)
   \<and> (getVoucherByCode (getActiveVoucherCode st) = Some vo
        \<and> (\<Sum>it\<leftarrow>cart. price it * of_int (quantity it)) < minSpend vo \<longrightarrow>
        discount (calculateCartTotals st cart) = 0
        \<and> appliedVoucher (calculateCartTotals st cart) = getActiveVoucherCode st)"
proof (intro conjI impI)
  assume "getVoucherByCode (Some (toUpperCase (trim v))) = None"
  then show "fst (apply_button_click v st pg) = st" by (rule apply_button_click_unknown)
next
  assume "getCartItems st = Inr cart \<and> onclick_cart pg = Some cart
        \<and> (listener_cart pg = None \<or> listener_cart pg = Some cart)"
  then show "fst (apply_button_click v st pg) =
        (case getVoucherByCode (Some (toUpperCase (trim v))) of
           None \<Rightarrow> st
         | Some vo \<Rightarrow>
             if (\<Sum>it\<leftarrow>cart. price it * of_int (quantity it)) < minSpend vo then st
             else st\<lparr>os_active_voucher := Some (toUpperCase (trim v))\<rparr>)"
    using apply_button_click_rendered[of st cart pg v] by blast
next
  assume "getCartItems st = Inr cart \<and> cart \<noteq> []"
  then show "\<exists>p. renderCart st pg0 = Inr p \<and> onclick_cart p = Some cart
           \<and> listener_cart p = (if voucher_controls pg0 then listener_cart pg0 else Some cart)"
    using renderCart_copies[of st cart pg0] by blast
next
  show "cartItems (fst (apply_button_click v st pg)) = cartItems st"
    "os_current_user (fst (apply_button_click v st pg)) = os_current_user st"
    "os_saved_username (fst (apply_button_click v st pg)) = os_saved_username st"
    using apply_button_click_frame[of v st pg] by simp_all
next
  show "getActiveVoucherCode (setActiveVoucherCode (Some c) st) = (if c = [] then None else Some c)"
    by (simp add: getActiveVoucherCode_def setActiveVoucherCode_def)
next
  assume a: "getVoucherByCode (getActiveVoucherCode st) = Some vo
        \<and> (\<Sum>it\<leftarrow>cart. price it * of_int (quantity it)) < minSpend vo"
  then show "discount (calculateCartTotals st cart) = 0"
    by (simp add: totals_refine computeTotals_def Let_def)
  show "appliedVoucher (calculateCartTotals st cart) = getActiveVoucherCode st"
    by (simp add: totals_refine computeTotals_def Let_def)
qed

theorem apply_button_click_spec_witness:
  "(\<exists>p. renderCart (signed_in\<lparr>cartItems := Some (JSON_stringify [pen\<lparr>quantity := 6\<rparr>])\<rparr>) fresh_page = Inr p
        \<and> onclick_cart p = Some [pen\<lparr>quantity := 6\<rparr>]
        \<and> listener_cart p = Some [pen\<lparr>quantity := 6\<rparr>]
        \<and> fst (apply_button_click '' offi2025 ''
               (signed_in\<lparr>cartItems := Some (JSON_stringify [pen\<lparr>quantity := 6\<rparr>])\<rparr>) p)
            = signed_in\<lparr>cartItems := Some (JSON_stringify [pen\<lparr>quantity := 6\<rparr>]),
                        os_active_voucher := Some ''OFFI2025''\<rparr>
        \<and> fst (apply_button_click ''bulk10''
               (signed_in\<lparr>cartItems := Some (JSON_stringify [pen\<lparr>quantity := 6\<rparr>])\<rparr>) p)
            = signed_in\<lparr>cartItems := Some (JSON_stringify [pen\<lparr>quantity := 6\<rparr>])\<rparr>
        \<and> fst (apply_button_click ''SAVE50''
               (signed_in\<lparr>cartItems := Some (JSON_stringify [pen\<lparr>quantity := 6\<rparr>])\<rparr>) p)
            = signed_in\<lparr>cartItems := Some (JSON_stringify [pen\<lparr>quantity := 6\<rparr>])\<rparr>)
   \<and> (\<exists>q. renderCart (signed_in\<lparr>cartItems := Some (JSON_stringify [pen\<lparr>quantity := 6\<rparr>])\<rparr>)
             (fresh_page\<lparr>voucher_controls := True\<rparr>) = Inr q
        \<and> onclick_cart q = Some [pen\<lparr>quantity := 6\<rparr>]
        \<and> listener_cart q = None
        \<and> fst (apply_button_click ''OFFI2025''
               (signed_in\<lparr>cartItems := Some (JSON_stringify [pen\<lparr>quantity := 6\<rparr>])\<rparr>) q)
            = signed_in\<lparr>cartItems := Some (JSON_stringify [pen\<lparr>quantity := 6\<rparr>]),
                        os_active_voucher := Some ''OFFI2025''\<rparr>)
   \<and> discount (calculateCartTotals (signed_in\<lparr>os_active_voucher := Some ''OFFI2025''\<rparr>)
        [pen\<lparr>quantity := 2\<rparr>]) = 0
   \<and> appliedVoucher (calculateCartTotals (signed_in\<lparr>os_active_voucher := Some ''OFFI2025''\<rparr>)
        [pen\<lparr>quantity := 2\<rparr>]) = Some ''OFFI2025''"
proof -
  let ?cart = "[pen\<lparr>quantity := 6\<rparr>]"
  let ?st = "signed_in\<lparr>cartItems := Some (JSON_stringify ?cart)\<rparr>"
  let ?sv = "signed_in\<lparr>os_active_voucher := Some ''OFFI2025''\<rparr>"
  let ?offi = "\<lparr>code = ''OFFI2025'', rule = Amount 100, minSpend = 500,
          description = peso @ ''100 OFF min. spend '' @ peso @ ''500''\<rparr>"
  let ?bulk = "\<lparr>code = ''BULK10'', rule = Percent 10, minSpend = 2000,
          description = ''10% OFF orders above '' @ peso @ ''2,000''\<rparr>"
  have u1: "toUpperCase (trim '' offi2025 '') = ''OFFI2025''" by code_simp
  have u2: "toUpperCase (trim ''bulk10'') = ''BULK10''" by code_simp
  have u3: "toUpperCase (trim ''SAVE50'') = ''SAVE50''" by code_simp
  have v1: "getVoucherByCode (Some ''OFFI2025'') = Some ?offi"
    by (simp add: getVoucherByCode_OFFI2025 VOUCHERS_def)
  have v2: "getVoucherByCode (Some ''BULK10'') = Some ?bulk"
    by (simp add: getVoucherByCode_BULK10 VOUCHERS_def)
  have v3: "getVoucherByCode (Some ''SAVE50'') = None"
    by (simp add: getVoucherByCode_def u3 VOUCHERS_def)
  have g: "getCartItems ?st = Inr ?cart" by (rule getCartItems_saved)
  have f: "\<not> voucher_controls fresh_page" "listener_cart fresh_page = None"
    by (simp_all add: fresh_page_def)
  have ne: "?cart \<noteq> []" by simp
  have "\<exists>p. renderCart ?st fresh_page = Inr p \<and> onclick_cart p = Some ?cart
        \<and> listener_cart p = Some ?cart"
    using apply_button_click_spec[of "[]" ?st fresh_page ?cart fresh_page "[]" ?offi,
        THEN conjunct2, THEN conjunct2, THEN conjunct1] g f ne
    by simp
  then obtain p where p: "renderCart ?st fresh_page = Inr p" "onclick_cart p = Some ?cart"
      "listener_cart p = Some ?cart"
    by blast
  have h: "getCartItems ?st = Inr ?cart \<and> onclick_cart p = Some ?cart
        \<and> (listener_cart p = None \<or> listener_cart p = Some ?cart)"
    using g p by simp
  have 1: "fst (apply_button_click '' offi2025 '' ?st p) = ?st\<lparr>os_active_voucher := Some ''OFFI2025''\<rparr>"
    using apply_button_click_spec[of "'' offi2025 ''" ?st p ?cart fresh_page "[]" ?offi,
        THEN conjunct2, THEN conjunct1] h
    unfolding u1 v1 by (simp add: pen_def)
  have 2: "fst (apply_button_click ''bulk10'' ?st p) = ?st"
    using apply_button_click_spec[of "''bulk10''" ?st p ?cart fresh_page "[]" ?offi,
        THEN conjunct2, THEN conjunct1] h
    unfolding u2 v2 by (simp add: pen_def)
  let ?static = "fresh_page\<lparr>voucher_controls := True\<rparr>"
  have u0: "toUpperCase (trim ''OFFI2025'') = ''OFFI2025''" by code_simp
  have "\<exists>q. renderCart ?st ?static = Inr q \<and> onclick_cart q = Some ?cart
        \<and> listener_cart q = None"
    using apply_button_click_spec[of "[]" ?st fresh_page ?cart ?static "[]" ?offi,
        THEN conjunct2, THEN conjunct2, THEN conjunct1] g f ne
    by simp
  then obtain q where q: "renderCart ?st ?static = Inr q" "onclick_cart q = Some ?cart"
      "listener_cart q = None"
    by blast
  have hq: "getCartItems ?st = Inr ?cart \<and> onclick_cart q = Some ?cart
        \<and> (listener_cart q = None \<or> listener_cart q = Some ?cart)"
    using g q by simp
  have 5: "fst (apply_button_click ''OFFI2025'' ?st q) = ?st\<lparr>os_active_voucher := Some ''OFFI2025''\<rparr>"
    using apply_button_click_spec[of "''OFFI2025''" ?st q ?cart fresh_page "[]" ?offi,
        THEN conjunct2, THEN conjunct1] hq
    unfolding u0 v1 by (simp add: pen_def)
  have 3: "fst (apply_button_click ''SAVE50'' ?st p) = ?st"
    using apply_button_click_spec[of "''SAVE50''" ?st p ?cart fresh_page "[]" ?offi,
        THEN conjunct1]
    unfolding u3 v3 by simp
  have a: "getActiveVoucherCode ?sv = Some ''OFFI2025''"
    by (simp add: getActiveVoucherCode_def)
  have 4: "discount (calculateCartTotals ?sv [pen\<lparr>quantity := 2\<rparr>]) = 0
        \<and> appliedVoucher (calculateCartTotals ?sv [pen\<lparr>quantity := 2\<rparr>]) = getActiveVoucherCode ?sv"
    using apply_button_click_spec[of "[]" ?sv fresh_page "[pen\<lparr>quantity := 2\<rparr>]" fresh_page "[]" ?offi,
        THEN conjunct2, THEN conjunct2, THEN conjunct2, THEN conjunct2, THEN conjunct2,
        THEN conjunct2, THEN conjunct2]
    unfolding a v1 by (simp add: pen_def)
  show ?thesis using p q 1 2 3 4 5 a by auto
qed

text \<open>
  The copy added with \<^verbatim>\<open>addEventListener\<close> keeps the cart of the render that injected
  the controls. After six pens were rendered and the quantity was changed to two, that
  copy still sees six pens: a click with \<^verbatim>\<open>OFFI2025\<close> stores the code through it,
  although the \<^verbatim>\<open>onclick\<close> copy, which holds the cart as it is now, refuses the code.
\<close>

lemma apply_button_click_first_render_cart:
  "renderCart (signed_in\<lparr>cartItems := Some (JSON_stringify [pen\<lparr>quantity := 6\<rparr>])\<rparr>) fresh_page
     = Inr \<lparr>voucher_controls = True, listener_cart = Some [pen\<lparr>quantity := 6\<rparr>],
            onclick_cart = Some [pen\<lparr>quantity := 6\<rparr>], code_input = []\<rparr>
   \<and> cartList_change ''A'' ''2'' (signed_in\<lparr>cartItems := Some (JSON_stringify [pen\<lparr>quantity := 6\<rparr>])\<rparr>)
     = Inr (signed_in\<lparr>cartItems := Some (JSON_stringify [pen\<lparr>quantity := 2\<rparr>])\<rparr>)
   \<and> renderCart (signed_in\<lparr>cartItems := Some (JSON_stringify [pen\<lparr>quantity := 2\<rparr>])\<rparr>)
        \<lparr>voucher_controls = True, listener_cart = Some [pen\<lparr>quantity := 6\<rparr>],
           onclick_cart = Some [pen\<lparr>quantity := 6\<rparr>], code_input = []\<rparr>
     = Inr \<lparr>voucher_controls = True, listener_cart = Some [pen\<lparr>quantity := 6\<rparr>],
            onclick_cart = Some [pen\<lparr>quantity := 2\<rparr>], code_input = []\<rparr>
   \<and> apply_button_click ''OFFI2025''
        (signed_in\<lparr>cartItems := Some (JSON_stringify [pen\<lparr>quantity := 2\<rparr>])\<rparr>)
        \<lparr>voucher_controls = True, listener_cart = Some [pen\<lparr>quantity := 6\<rparr>],
           onclick_cart = Some [pen\<lparr>quantity := 2\<rparr>], code_input = []\<rparr>
     = (signed_in\<lparr>cartItems := Some (JSON_stringify [pen\<lparr>quantity := 2\<rparr>]),
                   os_active_voucher := Some ''OFFI2025''\<rparr>,
        \<lparr>voucher_controls = True, listener_cart = Some [pen\<lparr>quantity := 6\<rparr>],
           onclick_cart = Some [pen\<lparr>quantity := 2\<rparr>], code_input = ''OFFI2025''\<rparr>,
        [''Voucher OFFI2025 applied'', ''Voucher does not meet requirements''])"
proof -
  let ?st6 = "signed_in\<lparr>cartItems := Some (JSON_stringify [pen\<lparr>quantity := 6\<rparr>])\<rparr>"
  let ?st2 = "signed_in\<lparr>cartItems := Some (JSON_stringify [pen\<lparr>quantity := 2\<rparr>])\<rparr>"
  let ?sv = "?st2\<lparr>os_active_voucher := Some ''OFFI2025''\<rparr>"
  let ?pg = "\<lparr>voucher_controls = True, listener_cart = Some [pen\<lparr>quantity := 6\<rparr>],
           onclick_cart = Some [pen\<lparr>quantity := 2\<rparr>], code_input = ''OFFI2025''\<rparr>"
  let ?offi = "\<lparr>code = ''OFFI2025'', rule = Amount 100, minSpend = 500,
          description = peso @ ''100 OFF min. spend '' @ peso @ ''500''\<rparr>"
  have u: "toUpperCase (trim ''OFFI2025'') = ''OFFI2025''" by code_simp
  have v: "getVoucherByCode (Some ''OFFI2025'') = Some ?offi"
    by (simp add: getVoucherByCode_OFFI2025 VOUCHERS_def)
  have a: "getActiveVoucherCode ?st6 = None" "getActiveVoucherCode ?st2 = None"
    "getActiveVoucherCode ?sv = Some ''OFFI2025''"
    by (simp_all add: getActiveVoucherCode_def signed_in_def)
  have r1: "renderCart ?st6 fresh_page
     = Inr \<lparr>voucher_controls = True, listener_cart = Some [pen\<lparr>quantity := 6\<rparr>],
            onclick_cart = Some [pen\<lparr>quantity := 6\<rparr>], code_input = []\<rparr>"
    by (simp add: renderCart_def getCartItems_saved appliedVoucher_eq a fresh_page_def Let_def)
  have p: "parseInt ''2'' 10 = Some 2"
    by (simp add: parseInt_def digitValue_def isWhiteSpace_def)
  have g: "getCartItems ?st6 = Inr ([] @ pen\<lparr>quantity := 6\<rparr> # [])"
    by (simp add: getCartItems_saved)
  have ch: "cartList_change ''A'' ''2'' ?st6 = Inr ?st2"
    using updateQuantity_present[OF g, of "''A''" 2]
    by (simp add: cartList_change_def p pen_def)
  have r2: "renderCart ?st2
        \<lparr>voucher_controls = True, listener_cart = Some [pen\<lparr>quantity := 6\<rparr>],
           onclick_cart = Some [pen\<lparr>quantity := 6\<rparr>], code_input = []\<rparr>
     = Inr \<lparr>voucher_controls = True, listener_cart = Some [pen\<lparr>quantity := 6\<rparr>],
            onclick_cart = Some [pen\<lparr>quantity := 2\<rparr>], code_input = []\<rparr>"
    by (simp add: renderCart_def getCartItems_saved appliedVoucher_eq a Let_def)
  have r3: "renderCart ?sv ?pg = Inr ?pg"
    by (simp add: renderCart_def getCartItems_saved getCartItems_voucher_update
        appliedVoucher_eq a v Let_def)
  have d6: "calculateVoucherDiscount [pen\<lparr>quantity := 6\<rparr>] (Some ''OFFI2025'') = 100"
    by (simp add: discount_by_cases v pen_def)
  have c1: "apply_voucher_click [pen\<lparr>quantity := 6\<rparr>] ?st2 ?pg
      = (?sv, ?pg, ''Voucher OFFI2025 applied'')"
    by (simp add: apply_voucher_click_def u v d6 Let_def setActiveVoucherCode_def r3)
  have c2: "apply_voucher_click [pen\<lparr>quantity := 2\<rparr>] ?sv ?pg
      = (?sv, ?pg, ''Voucher does not meet requirements'')"
    by (rule apply_voucher_click_below[where vo = ?offi]) (simp_all add: u v pen_def)
  have "apply_button_click ''OFFI2025'' ?st2
        \<lparr>voucher_controls = True, listener_cart = Some [pen\<lparr>quantity := 6\<rparr>],
           onclick_cart = Some [pen\<lparr>quantity := 2\<rparr>], code_input = []\<rparr>
     = (?sv, ?pg, [''Voucher OFFI2025 applied'', ''Voucher does not meet requirements''])"
    by (simp add: apply_button_click_def c1 c2)
  then show ?thesis using r1 ch r2 by simp
qed

end
